theory Spec2Isabelle
  imports Main
begin

section \<open>Run-time values\<close>

text \<open>
  The client handles untyped JSON: response bodies are cast, never validated
  (\<^verbatim>\<open>data as SigSciResponseFormat\<close>, \<^verbatim>\<open>Promise<any>\<close>). A value is therefore a
  JavaScript value as \<^verbatim>\<open>JSON.parse\<close> yields it, with \<^verbatim>\<open>undefined\<close> added for a
  missing property. Numbers are restricted to the safe integers (magnitude below
  \<open>2 ^ 53\<close>: status codes, identifiers), which JavaScript holds exactly.
\<close>

datatype json =
    JUndefined
  | JNull
  | JBool bool
  | JNum int
  | JStr string
  | JArr "json list"
  | JObj "(string \<times> json) list"

text \<open>Exceptions. \<open>Error x\<close> is \<^verbatim>\<open>new Error(x)\<close>; \<open>TypeError p\<close> is the engine's error
  on reading property \<open>p\<close> of \<^verbatim>\<open>undefined\<close> or \<^verbatim>\<open>null\<close> (or on iterating a value that
  is not iterable).\<close>

datatype plain_error = Error json

record response =
  status :: int
  statusText :: string
  data :: json

text \<open>The error object of the HTTP library, as far as the client reads it:
  \<^verbatim>\<open>err.status\<close>, \<^verbatim>\<open>err.statusText\<close> (in \<^verbatim>\<open>authenticate\<close>) and \<^verbatim>\<open>error.response\<close>
  (in \<^verbatim>\<open>retryDelay\<close>).\<close>

record axios_error =
  err_status :: json
  err_statusText :: json
  err_response :: "response option"

record error_info =
  endpoint :: string
  e_status :: json
  e_statusText :: json
  cause :: "plain_error option"

datatype exn =
    IntegrationProviderAuthenticationError error_info
  | IntegrationProviderAPIError error_info
  | Generic plain_error
  | TypeError string
  | AxiosError axios_error

definition nullish :: "json \<Rightarrow> bool" where
  "nullish v = (v = JUndefined \<or> v = JNull)"

text \<open>\<^verbatim>\<open>!v\<close>: the falsy values.\<close>

definition falsy :: "json \<Rightarrow> bool" where
  "falsy v = (v = JUndefined \<or> v = JNull \<or> v = JBool False \<or> v = JNum 0 \<or> v = JStr [])"

text \<open>\<^verbatim>\<open>v.k\<close> for the property names the client reads (none of them is a built-in
  property of a string, number, boolean or array).\<close>

definition field :: "json \<Rightarrow> string \<Rightarrow> json" where
  "field v k = (case v of
      JObj kvs \<Rightarrow> (case map_of kvs k of Some x \<Rightarrow> x | None \<Rightarrow> JUndefined)
    | _ \<Rightarrow> JUndefined)"

definition get :: "json \<Rightarrow> string \<Rightarrow> exn + json" where
  "get v k = (if nullish v then Inl (TypeError k) else Inr (field v k))"

text \<open>\<^verbatim>\<open>v[0]\<close>.\<close>

definition index0 :: "json \<Rightarrow> exn + json" where
  "index0 v = (case v of
      JUndefined \<Rightarrow> Inl (TypeError ''0'')
    | JNull \<Rightarrow> Inl (TypeError ''0'')
    | JArr xs \<Rightarrow> Inr (case xs of [] \<Rightarrow> JUndefined | x # _ \<Rightarrow> x)
    | JStr s \<Rightarrow> Inr (case s of [] \<Rightarrow> JUndefined | c # _ \<Rightarrow> JStr [c])
    | JObj kvs \<Rightarrow> Inr (field v ''0'')
    | _ \<Rightarrow> Inr JUndefined)"

text \<open>The elements \<^verbatim>\<open>for (const x of v)\<close> visits: arrays and strings are iterable (a
  string character by character); anything else throws.\<close>

definition elements :: "json \<Rightarrow> exn + json list" where
  "elements v = (case v of
      JArr xs \<Rightarrow> Inr xs
    | JStr s \<Rightarrow> Inr (map (\<lambda>c. JStr [c]) s)
    | _ \<Rightarrow> Inl (TypeError ''Symbol.iterator''))"

text \<open>String conversion, as a template literal \<^verbatim>\<open>`${v}`\<close> performs it; a safe integer
  is printed digit by digit.\<close>

fun digits :: "nat \<Rightarrow> string" where
  "digits n = (if n < 10 then [''0123456789'' ! n]
               else digits (n div 10) @ [''0123456789'' ! (n mod 10)])"

fun join :: "string \<Rightarrow> string list \<Rightarrow> string" where
  "join sep [] = []"
| "join sep [x] = x"
| "join sep (x # y # ys) = x @ sep @ join sep (y # ys)"

fun to_string :: "json \<Rightarrow> string" where
  "to_string JUndefined = ''undefined''"
| "to_string JNull = ''null''"
| "to_string (JBool b) = (if b then ''true'' else ''false'')"
| "to_string (JNum n) = (if n < 0 then ''-'' @ digits (nat (- n)) else digits (nat n))"
| "to_string (JStr s) = s"
| "to_string (JArr xs) = join '','' (map (\<lambda>x. if nullish x then [] else to_string x) xs)"
| "to_string (JObj kvs) = ''[object Object]''"

definition bind_result :: "exn + 'a \<Rightarrow> ('a \<Rightarrow> exn + 'b) \<Rightarrow> exn + 'b" where
  "bind_result m f = (case m of Inl e \<Rightarrow> Inl e | Inr x \<Rightarrow> f x)"

section \<open>The HTTP layer\<close>

datatype http_method = GET | POST

record request =
  verb :: http_method
  url :: string
  body :: "string option"
  authorization :: "string option"

text \<open>What one exchange on the wire ends in: a response, or no response at all
  (the transport's own error).\<close>

datatype wire = Failure axios_error | Reply response

datatype outcome = Rejected axios_error | Resolved response

text \<open>Everything observable is recorded in a trace: calls of \<^verbatim>\<open>fetch\<close> and
  \<^verbatim>\<open>authenticate\<close>, requests put on the wire, waits of the retry layer and
  invocations of the caller's callback.\<close>

datatype event =
    Call_fetch string
  | Call_authenticate
  | Sent request
  | Wait int
  | Invoked json

text \<open>The surroundings of the client, none of them code of the repository: the network
  (its answer to the \<open>n\<close>-th request sent), the error object the HTTP library builds for
  a response whose status is refused, the retry layer's condition (the client configures
  none, so the library's default applies) and the platform's form encoding
  \<^verbatim>\<open>new URLSearchParams(o).toString()\<close>.\<close>

record env =
  network :: "nat \<Rightarrow> request \<Rightarrow> wire"
  createError :: "response \<Rightarrow> axios_error"
  retryCondition :: "request \<Rightarrow> axios_error \<Rightarrow> bool"
  form_encode :: "(string \<times> string) list \<Rightarrow> string"

fun is_Sent :: "event \<Rightarrow> bool" where
  "is_Sent (Sent r) = True"
| "is_Sent _ = False"

definition sent_count :: "event list \<Rightarrow> nat" where
  "sent_count tr = length (filter is_Sent tr)"

text \<open>\<^verbatim>\<open>validateStatus\<close> decides whether a response resolves or rejects the promise.\<close>

definition settle :: "env \<Rightarrow> (int \<Rightarrow> bool) \<Rightarrow> wire \<Rightarrow> outcome" where
  "settle E validateStatus w = (case w of
      Failure e \<Rightarrow> Rejected e
    | Reply r \<Rightarrow> if validateStatus (status r) then Resolved r else Rejected (createError E r))"

text \<open>Modelled from the spec: the library's default \<^verbatim>\<open>validateStatus\<close> is not under
  src/; \<open>authenticate\<close> "fails on any non-2xx response".\<close>

definition default_validateStatus :: "int \<Rightarrow> bool" where
  "default_validateStatus s = (200 \<le> s \<and> s < 300)"

text \<open>The retry configuration of the constructor (client.ts, lines 38-47).\<close>

definition retries :: nat where
  "retries = 5"

definition retryDelay :: "nat \<Rightarrow> axios_error \<Rightarrow> int" where
  "retryDelay retryCount error =
     (if (case err_response error of None \<Rightarrow> False | Some r \<Rightarrow> status r = 429)
      then int retryCount * 1000
      else 0)"

text \<open>Modelled from the spec: the retry loop itself (axios-retry) is not under src/.
  "Up to 5 retries; delay is retryCount * 1000 ms when the response status is 429, else
  0 ms": a rejected request is sent again, after the configured delay, while retries are
  left and the retry condition accepts the error. \<open>left\<close> counts the retries left,
  \<open>retryCount\<close> those made.\<close>

fun send :: "env \<Rightarrow> (int \<Rightarrow> bool) \<Rightarrow> request \<Rightarrow> nat \<Rightarrow> nat \<Rightarrow> event list
    \<Rightarrow> outcome \<times> event list" where
  "send E validateStatus req 0 retryCount tr =
     (settle E validateStatus (network E (sent_count tr) req), tr @ [Sent req])"
| "send E validateStatus req (Suc left) retryCount tr =
     (case settle E validateStatus (network E (sent_count tr) req) of
        Resolved r \<Rightarrow> (Resolved r, tr @ [Sent req])
      | Rejected e \<Rightarrow>
          if retryCondition E req e
          then send E validateStatus req left (Suc retryCount)
                 (tr @ [Sent req, Wait (retryDelay (Suc retryCount) e)])
          else (Rejected e, tr @ [Sent req]))"

definition axios_request :: "env \<Rightarrow> (int \<Rightarrow> bool) \<Rightarrow> request \<Rightarrow> event list
    \<Rightarrow> outcome \<times> event list" where
  "axios_request E validateStatus req tr = send E validateStatus req retries 0 tr"

section \<open>The API client (client.ts)\<close>

definition BASE_URI :: string where
  "BASE_URI = ''https://dashboard.signalsciences.net/api/v0''"

text \<open>The client object: \<^verbatim>\<open>tokenRequest\<close>, the \<^verbatim>\<open>token\<close> field, and the trace of
  what it has done so far.\<close>

record client =
  email :: string
  password :: string
  token :: json
  trace :: "event list"

text \<open>\<^verbatim>\<open>err.status\<close> and \<^verbatim>\<open>err.statusText\<close> of a caught exception.\<close>

fun status_of :: "exn \<Rightarrow> json" where
  "status_of (AxiosError e) = err_status e"
| "status_of (IntegrationProviderAuthenticationError i) = e_status i"
| "status_of (IntegrationProviderAPIError i) = e_status i"
| "status_of _ = JUndefined"

fun statusText_of :: "exn \<Rightarrow> json" where
  "statusText_of (AxiosError e) = err_statusText e"
| "statusText_of (IntegrationProviderAuthenticationError i) = e_statusText i"
| "statusText_of (IntegrationProviderAPIError i) = e_statusText i"
| "statusText_of _ = JUndefined"

definition auth_request :: "env \<Rightarrow> client \<Rightarrow> request" where
  "auth_request E c =
     \<lparr>verb = POST, url = BASE_URI @ ''/auth'',
      body = Some (form_encode E [(''email'', email c), (''password'', password c)]),
      authorization = None\<rparr>"

text \<open>The \<^verbatim>\<open>try\<close> block of \<^verbatim>\<open>authenticate\<close>: the POST, then \<^verbatim>\<open>response.data.token\<close>.\<close>

definition authenticate_try :: "env \<Rightarrow> client \<Rightarrow> (exn + json) \<times> client" where
  "authenticate_try E c =
     (case axios_request E default_validateStatus (auth_request E c) (trace c) of
        (Rejected err, tr) \<Rightarrow> (Inl (AxiosError err), c\<lparr>trace := tr\<rparr>)
      | (Resolved response, tr) \<Rightarrow> (get (data response) ''token'', c\<lparr>trace := tr\<rparr>))"

text \<open>\<^verbatim>\<open>authenticate\<close>: whatever the \<^verbatim>\<open>try\<close> block throws is replaced, in the
  \<^verbatim>\<open>catch\<close> clause, by an authentication error built from three properties.\<close>

definition authenticate :: "env \<Rightarrow> client \<Rightarrow> (exn + json) \<times> client" where
  "authenticate E c =
     (case authenticate_try E (c\<lparr>trace := trace c @ [Call_authenticate]\<rparr>) of
        (Inr t, c') \<Rightarrow> (Inr t, c')
      | (Inl err, c') \<Rightarrow>
          (Inl (IntegrationProviderAuthenticationError
             \<lparr>endpoint = BASE_URI @ ''/auth'',
              e_status = status_of err,
              e_statusText = statusText_of err,
              cause = None\<rparr>), c'))"

definition get_request :: "string \<Rightarrow> json \<Rightarrow> request" where
  "get_request ep t =
     \<lparr>verb = GET, url = ep, body = None,
      authorization = Some (''Bearer '' @ to_string t)\<rparr>"

definition fetch :: "env \<Rightarrow> string \<Rightarrow> client \<Rightarrow> (exn + json) \<times> client" where
  "fetch E ep c =
     (case authenticate E (c\<lparr>trace := trace c @ [Call_fetch ep]\<rparr>) of
        (Inl err, c1) \<Rightarrow> (Inl err, c1)
      | (Inr t, c1) \<Rightarrow>
          (let c2 = c1\<lparr>token := t\<rparr> in
           case axios_request E (\<lambda>s. True) (get_request ep (token c2)) (trace c2) of
             (Rejected err, tr) \<Rightarrow> (Inl (AxiosError err), c2\<lparr>trace := tr\<rparr>)
           | (Resolved r, tr) \<Rightarrow>
               (if status r = 200 then Inr (data r)
                else if status r \<in> set [401, 403]
                then Inl (IntegrationProviderAuthenticationError
                       \<lparr>endpoint = ep, e_status = JNum (status r),
                        e_statusText = JStr (statusText r),
                        cause = Some (Error (data r))\<rparr>)
                else Inl (IntegrationProviderAPIError
                       \<lparr>endpoint = ep, e_status = JNum (status r),
                        e_statusText = JStr (statusText r),
                        cause = Some (Error (data r))\<rparr>),
                c2\<lparr>trace := tr\<rparr>)))"

definition verifyAuthentication :: "env \<Rightarrow> client \<Rightarrow> (exn + unit) \<times> client" where
  "verifyAuthentication E c =
     (case fetch E (BASE_URI @ ''/corps'') c of
        (Inl err, c') \<Rightarrow> (Inl err, c')
      | (Inr b, c') \<Rightarrow> (Inr (), c'))"

text \<open>A callback (\<^verbatim>\<open>ResourceIteratee\<close>) works on a state of the caller's and may throw.
  The loop \<^verbatim>\<open>for (const x of data) { await iteratee(x); }\<close> stops at the first throw.\<close>

type_synonym 'u iteratee = "json \<Rightarrow> 'u \<Rightarrow> exn option \<times> 'u"

fun forEach :: "'u iteratee \<Rightarrow> json list \<Rightarrow> event list \<Rightarrow> 'u
    \<Rightarrow> (exn + unit) \<times> event list \<times> 'u" where
  "forEach f [] tr u = (Inr (), tr, u)"
| "forEach f (x # xs) tr u =
     (case f x u of
        (Some err, u') \<Rightarrow> (Inl err, tr @ [Invoked x], u')
      | (None, u') \<Rightarrow> forEach f xs (tr @ [Invoked x]) u')"

text \<open>The body the three iterators share, statement for statement:
  \<^verbatim>\<open>const { data } = await this.fetch(endpoint); for (const x of data) await iteratee(x);\<close>\<close>

definition iterate :: "env \<Rightarrow> string \<Rightarrow> 'u iteratee \<Rightarrow> client \<Rightarrow> 'u
    \<Rightarrow> (exn + unit) \<times> client \<times> 'u" where
  "iterate E ep f c u =
     (case fetch E ep c of
        (Inl err, c1) \<Rightarrow> (Inl err, c1, u)
      | (Inr b, c1) \<Rightarrow>
          (case bind_result (get b ''data'') elements of
             Inl err \<Rightarrow> (Inl err, c1, u)
           | Inr xs \<Rightarrow>
               (case forEach f xs (trace c1) u of
                  (r, tr, u') \<Rightarrow> (r, c1\<lparr>trace := tr\<rparr>, u'))))"

definition buildEndpoint :: "json \<Rightarrow> string option \<Rightarrow> exn + string" where
  "buildEndpoint corp path =
     (if falsy corp
      then Inl (Generic (Error (JStr
             (''Parameter '' @ [CHR 0x27] @ ''corp'' @ [CHR 0x27]
                @ '' is required, but received '' @ to_string corp))))
      else (case path of
              None \<Rightarrow> Inr (BASE_URI @ ''/corps/'' @ to_string corp)
            | Some p \<Rightarrow>
                if p = [] then Inr (BASE_URI @ ''/corps/'' @ to_string corp)
                else Inr (BASE_URI @ ''/corps/'' @ to_string corp @ p)))"

definition iterateCorps :: "env \<Rightarrow> 'u iteratee \<Rightarrow> client \<Rightarrow> 'u
    \<Rightarrow> (exn + unit) \<times> client \<times> 'u" where
  "iterateCorps E f c u = iterate E (BASE_URI @ ''/corps'') f c u"

definition iterateUsers :: "env \<Rightarrow> json \<Rightarrow> 'u iteratee \<Rightarrow> client \<Rightarrow> 'u
    \<Rightarrow> (exn + unit) \<times> client \<times> 'u" where
  "iterateUsers E corpName f c u =
     (case buildEndpoint corpName (Some ''/users'') of
        Inl err \<Rightarrow> (Inl err, c, u)
      | Inr ep \<Rightarrow> iterate E ep f c u)"

definition iterateCloudWAFInstances :: "env \<Rightarrow> json \<Rightarrow> 'u iteratee \<Rightarrow> client \<Rightarrow> 'u
    \<Rightarrow> (exn + unit) \<times> client \<times> 'u" where
  "iterateCloudWAFInstances E corpName f c u =
     (case buildEndpoint corpName (Some ''/cloudwafInstances'') of
        Inl err \<Rightarrow> (Inl err, c, u)
      | Inr ep \<Rightarrow> iterate E ep f c u)"

section \<open>The cloud-WAF converter\<close>

definition getCloudWAFKey :: "json \<Rightarrow> string" where
  "getCloudWAFKey ident = ''sigsci_cloudwaf:'' @ to_string ident"

text \<open>Modelled from the spec: \<^verbatim>\<open>createIntegrationEntity\<close> belongs to the SDK and is not
  under src/; the "normalized entity" is represented by the \<^verbatim>\<open>entityData\<close> it is built
  from, the source record and the assigned properties.\<close>

record entity =
  source :: json
  assign :: "(string \<times> json) list"

text \<open>What the converter takes from outside src/: the SDK's \<^verbatim>\<open>parseTimePropertyValue\<close>
  and the constants \<^verbatim>\<open>Entities.CLOUD_WAF._type\<close> and \<^verbatim>\<open>._class\<close>.\<close>

record sdk =
  parseTimePropertyValue :: "json \<Rightarrow> json"
  CLOUD_WAF_type :: json
  CLOUD_WAF_class :: json

text \<open>The properties of the object literal are evaluated in the order written; the first
  read of a property of \<^verbatim>\<open>undefined\<close> or \<^verbatim>\<open>null\<close> throws.\<close>

definition createCloudWAFEntity :: "sdk \<Rightarrow> json \<Rightarrow> exn + entity" where
  "createCloudWAFEntity S cloudWAF =
     bind_result (get cloudWAF ''id'') (\<lambda>ident.
     bind_result (get cloudWAF ''workspaceConfigs'') (\<lambda>workspaceConfigs.
     bind_result (index0 workspaceConfigs) (\<lambda>workspaceConfig.
     bind_result (get workspaceConfig ''siteName'') (\<lambda>siteName.
     bind_result (get (field cloudWAF ''deployment'') ''status'') (\<lambda>deploymentStatus.
     bind_result (get (field cloudWAF ''deployment'') ''message'') (\<lambda>deploymentMessage.
     bind_result (get (field cloudWAF ''deployment'') ''egressIps'') (\<lambda>deploymentEgressIps.
     bind_result (get (field cloudWAF ''deployment'') ''dnsEntry'') (\<lambda>deploymentDnsEntry.
       Inr \<lparr>source = cloudWAF,
            assign =
              [(''_type'', CLOUD_WAF_type S),
               (''_class'', CLOUD_WAF_class S),
               (''_key'', JStr (getCloudWAFKey ident)),
               (''name'', field cloudWAF ''name''),
               (''displayName'', field cloudWAF ''name''),
               (''category'', JArr [JStr ''application'']),
               (''description'', field cloudWAF ''description''),
               (''region'', field cloudWAF ''region''),
               (''tlsMinVersion'', field cloudWAF ''tlsMinVersion''),
               (''siteName'', siteName),
               (''deploymentStatus'', deploymentStatus),
               (''deploymentMessage'', deploymentMessage),
               (''deploymentEgressIps'', deploymentEgressIps),
               (''deploymentDnsEntry'', deploymentDnsEntry),
               (''useUploadedCertificates'', field cloudWAF ''useUploadedCertificates''),
               (''createdBy'', field cloudWAF ''createdBy''),
               (''created'', parseTimePropertyValue S (field cloudWAF ''created'')),
               (''updatedBy'', field cloudWAF ''updatedBy'')]\<rparr>))))))))"

text \<open>A property of the entity.\<close>

definition property :: "entity \<Rightarrow> string \<Rightarrow> json option" where
  "property e k = map_of (assign e) k"

section \<open>Reading traces\<close>

fun is_Wait :: "event \<Rightarrow> bool" where
  "is_Wait (Wait d) = True"
| "is_Wait _ = False"

fun is_call :: "event \<Rightarrow> bool" where
  "is_call (Call_fetch ep) = True"
| "is_call Call_authenticate = True"
| "is_call _ = False"

fun is_Invoked :: "event \<Rightarrow> bool" where
  "is_Invoked (Invoked x) = True"
| "is_Invoked _ = False"

text \<open>A stretch of trace that is the transport of one request: the request sent one or
  more times, first and last, with waits of the retry layer in between, and nothing
  else.\<close>

definition transport_only :: "request \<Rightarrow> event list \<Rightarrow> bool" where
  "transport_only req evs =
     (evs \<noteq> [] \<and> hd evs = Sent req \<and> last evs = Sent req
      \<and> list_all (\<lambda>e. e = Sent req \<or> is_Wait e) evs)"

text \<open>What a call added to the trace.\<close>

definition appended :: "client \<Rightarrow> client \<Rightarrow> event list" where
  "appended c c' = drop (length (trace c)) (trace c')"

text \<open>What a caller of a client method gets back, compared up to the stored token.\<close>

definition same_outcome :: "('r \<times> client \<times> 'u) \<Rightarrow> ('r \<times> client \<times> 'u) \<Rightarrow> bool" where
  "same_outcome p q =
     (fst p = fst q \<and> trace (fst (snd p)) = trace (fst (snd q)) \<and> snd (snd p) = snd (snd q))"

text \<open>A client method that returned \<open>r\<close> and left the client \<open>c'\<close> has made exactly the
  one call \<open>fetch(ep)\<close>: the trace is that of \<open>fetch\<close>, followed by nothing but
  invocations of the callback; the stored token is the one \<open>fetch\<close> stored; and an error
  of \<open>fetch\<close> is the method's error, with no callback invoked.\<close>

definition after_one_fetch :: "env \<Rightarrow> string \<Rightarrow> client \<Rightarrow> exn + unit \<Rightarrow> client \<Rightarrow> bool" where
  "after_one_fetch E ep c r c' =
     (case fetch E ep c of (r1, c1) \<Rightarrow>
        take (length (trace c1)) (trace c') = trace c1
      \<and> list_all is_Invoked (drop (length (trace c1)) (trace c'))
      \<and> token c' = token c1
      \<and> (case r1 of Inl err \<Rightarrow> r = Inl err \<and> trace c' = trace c1 | Inr b \<Rightarrow> True))"

section \<open>Concrete surroundings for evaluation\<close>

text \<open>A network that answers the \<open>n\<close>-th request with the \<open>n\<close>-th entry of a script and
  gives no reply once the script is used up. The HTTP library as its defaults make it:
  the error object for a refused status holds the response under \<^verbatim>\<open>response\<close> and has no
  \<^verbatim>\<open>status\<close> or \<^verbatim>\<open>statusText\<close> of its own; a request without reply is sent again, one
  with a reply only if it is a GET answered 5xx. A form encoding without escapes.\<close>

definition no_reply :: wire where
  "no_reply =
     Failure \<lparr>err_status = JUndefined, err_statusText = JUndefined, err_response = None\<rparr>"

definition script :: "wire list \<Rightarrow> nat \<Rightarrow> request \<Rightarrow> wire" where
  "script ws n req = (if n < length ws then ws ! n else no_reply)"

definition test_env :: "wire list \<Rightarrow> env" where
  "test_env ws =
     \<lparr>network = script ws,
      createError = (\<lambda>r. \<lparr>err_status = JUndefined, err_statusText = JUndefined,
                            err_response = Some r\<rparr>),
      retryCondition = (\<lambda>req e. case err_response e of
                           None \<Rightarrow> True
                         | Some r \<Rightarrow> verb req = GET \<and> 500 \<le> status r \<and> status r \<le> 599),
      form_encode = (\<lambda>kvs. join ''&'' (map (\<lambda>(k, v). k @ ''='' @ v) kvs))\<rparr>"

definition test_client :: client where
  "test_client = \<lparr>email = ''user'', password = ''pw'', token = JUndefined, trace = []\<rparr>"

definition token_abc :: wire where
  "token_abc = Reply \<lparr>status = 200, statusText = ''OK'', data = JObj [(''token'', JStr ''abc'')]\<rparr>"

definition forbidden :: response where
  "forbidden = \<lparr>status = 403, statusText = ''Forbidden'', data = JStr ''no''\<rparr>"

definition corps_url :: string where
  "corps_url = BASE_URI @ ''/corps''"

definition corps_ok :: response where
  "corps_ok = \<lparr>status = 200, statusText = ''OK'',
      data = JObj [(''data'', JArr [JObj [(''id'', JNum 1), (''name'', JStr ''acme'')]])]\<rparr>"

definition no_token :: response where
  "no_token = \<lparr>status = 200, statusText = ''OK'', data = JObj []\<rparr>"

definition collect :: "json list iteratee" where
  "collect x u = (None, u @ [x])"

definition stale_client :: client where
  "stale_client = test_client\<lparr>token := JStr ''old''\<rparr>"

text \<open>The requests the test client sends: the POST to /auth and the GET of \<open>ep\<close> with the
  token \<open>abc\<close>.\<close>

definition post_auth :: "wire list \<Rightarrow> event" where
  "post_auth ws = Sent (auth_request (test_env ws) test_client)"

definition get_abc :: "string \<Rightarrow> event" where
  "get_abc ep = Sent (get_request ep (JStr ''abc''))"

definition after_auth :: "wire list \<Rightarrow> string \<Rightarrow> client" where
  "after_auth ws ep = test_client\<lparr>trace := [Call_fetch ep, Call_authenticate, post_auth ws]\<rparr>"

definition after_get :: "wire list \<Rightarrow> string \<Rightarrow> client" where
  "after_get ws ep =
     test_client\<lparr>token := JStr ''abc'',
       trace := [Call_fetch ep, Call_authenticate, post_auth ws, get_abc ep]\<rparr>"

definition after_retried_get :: "wire list \<Rightarrow> string \<Rightarrow> client" where
  "after_retried_get ws ep =
     test_client\<lparr>token := JStr ''abc'',
       trace := [Call_fetch ep, Call_authenticate, post_auth ws,
                 get_abc ep, Wait 0, get_abc ep]\<rparr>"

definition users_url :: string where
  "users_url = BASE_URI @ ''/corps/acme/users''"

definition wafs_url :: string where
  "wafs_url = BASE_URI @ ''/corps/acme/cloudwafInstances''"

definition ann :: json where
  "ann = JObj [(''email'', JStr ''ann@acme'')]"

definition bob :: json where
  "bob = JObj [(''email'', JStr ''bob@acme'')]"

definition cyd :: json where
  "cyd = JObj [(''email'', JStr ''cyd@acme'')]"

definition users_ok :: response where
  "users_ok = \<lparr>status = 200, statusText = ''OK'', data = JObj [(''data'', JArr [ann, bob, cyd])]\<rparr>"

definition null_body :: response where
  "null_body = \<lparr>status = 200, statusText = ''OK'', data = JNull\<rparr>"

definition empty_token :: response where
  "empty_token = \<lparr>status = 200, statusText = ''OK'', data = JObj [(''token'', JStr [])]\<rparr>"

definition test_sdk :: sdk where
  "test_sdk = \<lparr>parseTimePropertyValue = (\<lambda>t. t), CLOUD_WAF_type = JStr ''sigsci_cloudwaf'',
                CLOUD_WAF_class = JArr [JStr ''Firewall'']\<rparr>"

definition waf_s1 :: json where
  "waf_s1 = JObj [(''id'', JStr ''w1''), (''name'', JStr ''edge''),
                  (''workspaceConfigs'', JArr [JObj [(''siteName'', JStr ''s1'')]]),
                  (''deployment'', JObj [(''status'', JStr ''done'')])]"

definition waf_no_configs :: json where
  "waf_no_configs = JObj [(''id'', JStr ''w2''), (''workspaceConfigs'', JArr []),
                          (''deployment'', JObj [(''status'', JStr ''done'')])]"

definition waf_no_deployment :: json where
  "waf_no_deployment = JObj [(''id'', JStr ''w3''),
                             (''workspaceConfigs'', JArr [JObj [(''siteName'', JStr ''s1'')]])]"

definition server_error :: response where
  "server_error = \<lparr>status = 500, statusText = ''Internal Server Error'', data = JStr ''boom''\<rparr>"

definition too_many :: response where
  "too_many = \<lparr>status = 429, statusText = ''Too Many Requests'', data = JStr ''slow down''\<rparr>"

section \<open>The HTTP layer: what a request adds to the trace\<close>

text \<open>A response whose status \<^verbatim>\<open>validateStatus\<close> accepts resolves at once: the retry
  layer never sees it.\<close>

lemma send_accepts_reply:
  "network E (sent_count tr) req = Reply r \<Longrightarrow> vs (status r) \<Longrightarrow>
     send E vs req n k tr = (Resolved r, tr @ [Sent req])"
  by (cases n) (simp_all add: settle_def)

lemma axios_request_accepts_reply:
  "network E (sent_count tr) req = Reply r \<Longrightarrow> vs (status r) \<Longrightarrow>
     axios_request E vs req tr = (Resolved r, tr @ [Sent req])"
  by (simp add: axios_request_def send_accepts_reply)

lemma transport_only_single: "transport_only req [Sent req]"
  by (simp add: transport_only_def)

lemma transport_only_Cons:
  "transport_only req evs \<Longrightarrow> transport_only req (Sent req # Wait d # evs)"
  by (simp add: transport_only_def)

lemma send_trace:
  "\<exists>evs. snd (send E vs req n k tr) = tr @ evs \<and> transport_only req evs"
proof (induction n arbitrary: k tr)
  case 0
  show ?case by (simp add: transport_only_single)
next
  case (Suc n)
  show ?case
  proof (cases "settle E vs (network E (sent_count tr) req)")
    case (Resolved r)
    then show ?thesis by (simp add: transport_only_single)
  next
    case (Rejected e)
    show ?thesis
    proof (cases "retryCondition E req e")
      case False
      with Rejected show ?thesis by (simp add: transport_only_single)
    next
      case True
      from Suc.IH [of "Suc k" "tr @ [Sent req, Wait (retryDelay (Suc k) e)]"]
      obtain evs where
        "snd (send E vs req n (Suc k) (tr @ [Sent req, Wait (retryDelay (Suc k) e)]))
           = (tr @ [Sent req, Wait (retryDelay (Suc k) e)]) @ evs"
        and "transport_only req evs" by blast
      with Rejected True show ?thesis
        by (auto simp: transport_only_Cons
            intro!: exI [of _ "Sent req # Wait (retryDelay (Suc k) e) # evs"])
    qed
  qed
qed

lemma axios_request_trace:
  "\<exists>evs. snd (axios_request E vs req tr) = tr @ evs \<and> transport_only req evs"
  by (simp add: axios_request_def send_trace)

section \<open>The client: what a call adds to the trace\<close>

lemma auth_request_trace: "auth_request E (c\<lparr>trace := tr\<rparr>) = auth_request E c"
  by (simp add: auth_request_def)

lemma auth_request_token: "auth_request E (c\<lparr>token := x\<rparr>) = auth_request E c"
  by (simp add: auth_request_def)

lemma authenticate_try_trace:
  "\<exists>posts. trace (snd (authenticate_try E c)) = trace c @ posts
     \<and> transport_only (auth_request E c) posts"
proof -
  obtain out tr
    where ax: "axios_request E default_validateStatus (auth_request E c) (trace c) = (out, tr)"
    by (cases "axios_request E default_validateStatus (auth_request E c) (trace c)")
  from axios_request_trace [of E default_validateStatus "auth_request E c" "trace c"] ax
  obtain posts where "tr = trace c @ posts" and "transport_only (auth_request E c) posts"
    by auto
  with ax show ?thesis
    by (cases out) (auto simp: authenticate_try_def)
qed

lemma authenticate_trace:
  "\<exists>posts. trace (snd (authenticate E c)) = trace c @ Call_authenticate # posts
     \<and> transport_only (auth_request E c) posts"
proof -
  let ?c = "c\<lparr>trace := trace c @ [Call_authenticate]\<rparr>"
  from authenticate_try_trace [of E ?c]
  obtain posts where "trace (snd (authenticate_try E ?c)) = trace ?c @ posts"
    and "transport_only (auth_request E c) posts" by (auto simp: auth_request_trace)
  then show ?thesis
    by (cases "authenticate_try E ?c") (auto simp: authenticate_def split: sum.splits)
qed

text \<open>The \<open>token\<close> field is not read by \<open>authenticate\<close>.\<close>

lemma authenticate_try_token:
  "authenticate_try E (c\<lparr>token := x\<rparr>)
     = (fst (authenticate_try E c), (snd (authenticate_try E c))\<lparr>token := x\<rparr>)"
  by (auto simp: authenticate_try_def auth_request_token split: prod.splits outcome.splits)

lemma authenticate_token:
  "authenticate E (c\<lparr>token := x\<rparr>)
     = (fst (authenticate E c), (snd (authenticate E c))\<lparr>token := x\<rparr>)"
proof -
  let ?c = "c\<lparr>trace := trace c @ [Call_authenticate]\<rparr>"
  have swap: "(c\<lparr>token := x\<rparr>)\<lparr>trace := trace (c\<lparr>token := x\<rparr>) @ [Call_authenticate]\<rparr>
                = ?c\<lparr>token := x\<rparr>" by simp
  obtain res c' where au: "authenticate_try E ?c = (res, c')"
    by (cases "authenticate_try E ?c")
  then have "authenticate_try E (?c\<lparr>token := x\<rparr>) = (res, c'\<lparr>token := x\<rparr>)"
    by (simp add: authenticate_try_token)
  with au show ?thesis
    unfolding authenticate_def swap by (cases res) simp_all
qed

lemma fetch_auth_failed:
  "authenticate E (c\<lparr>trace := trace c @ [Call_fetch ep]\<rparr>) = (Inl err, c1)
     \<Longrightarrow> fetch E ep c = (Inl err, c1)"
  by (simp add: fetch_def)

lemma fetch_auth_ok:
  "authenticate E (c\<lparr>trace := trace c @ [Call_fetch ep]\<rparr>) = (Inr t, c1) \<Longrightarrow>
   axios_request E (\<lambda>s. True) (get_request ep t) (trace c1) = (out, tr) \<Longrightarrow>
   snd (fetch E ep c) = c1\<lparr>token := t, trace := tr\<rparr>"
  by (cases out) (simp_all add: fetch_def)

lemma fetch_trace:
  "\<exists>posts gets.
      trace (snd (fetch E ep c)) = trace c @ [Call_fetch ep, Call_authenticate] @ posts @ gets
    \<and> transport_only (auth_request E c) posts
    \<and> (case fst (authenticate E (c\<lparr>trace := trace c @ [Call_fetch ep]\<rparr>)) of
          Inl err \<Rightarrow> gets = [] \<and> fst (fetch E ep c) = Inl err
        | Inr t \<Rightarrow> transport_only (get_request ep t) gets \<and> token (snd (fetch E ep c)) = t)"
proof -
  let ?c = "c\<lparr>trace := trace c @ [Call_fetch ep]\<rparr>"
  obtain res c1 where au: "authenticate E ?c = (res, c1)"
    by (cases "authenticate E ?c")
  from authenticate_trace [of E ?c] au
  obtain posts where tr1: "trace c1 = trace c @ [Call_fetch ep, Call_authenticate] @ posts"
    and posts: "transport_only (auth_request E c) posts" by (auto simp: auth_request_trace)
  show ?thesis
  proof (cases res)
    case (Inl err)
    with au have "fetch E ep c = (Inl err, c1)" by (simp add: fetch_auth_failed)
    with Inl au tr1 posts show ?thesis
      by (intro exI [of _ posts] exI [of _ "[]"]) simp
  next
    case (Inr t)
    obtain out tr
      where ax: "axios_request E (\<lambda>s. True) (get_request ep t) (trace c1) = (out, tr)"
      by (cases "axios_request E (\<lambda>s. True) (get_request ep t) (trace c1)")
    from axios_request_trace [of E "\<lambda>s. True" "get_request ep t" "trace c1"] ax
    obtain gets where tr2: "tr = trace c1 @ gets"
      and gets: "transport_only (get_request ep t) gets"
      by auto
    from au Inr ax have "snd (fetch E ep c) = c1\<lparr>token := t, trace := tr\<rparr>"
      by (simp add: fetch_auth_ok)
    with Inr au tr1 tr2 posts gets show ?thesis
      by (intro exI [of _ posts] exI [of _ gets]) simp
  qed
qed

lemma transport_event_kind:
  "e = Sent req \<or> is_Wait e \<Longrightarrow> \<not> is_call e \<and> \<not> is_Invoked e \<and> e \<noteq> Call_authenticate"
  by (cases e) auto

lemma transport_only_no_call: "transport_only req evs \<Longrightarrow> filter is_call evs = []"
  unfolding transport_only_def list_all_iff filter_empty_conv
  using transport_event_kind by blast

lemma transport_only_no_Invoked: "transport_only req evs \<Longrightarrow> filter is_Invoked evs = []"
  unfolding transport_only_def list_all_iff filter_empty_conv
  using transport_event_kind by blast

lemma transport_only_no_authenticate:
  "transport_only req evs \<Longrightarrow> count_list evs Call_authenticate = 0"
  unfolding transport_only_def list_all_iff count_list_0_iff
  using transport_event_kind by blast

lemma fetch_trace_shape:
  "\<exists>posts gets.
      trace (snd (fetch E ep c)) = trace c @ [Call_fetch ep, Call_authenticate] @ posts @ gets
    \<and> transport_only (auth_request E c) posts
    \<and> (gets = [] \<or> (\<exists>t. transport_only (get_request ep t) gets))"
proof -
  from fetch_trace [of E ep c] obtain posts gets where
    tr: "trace (snd (fetch E ep c)) = trace c @ [Call_fetch ep, Call_authenticate] @ posts @ gets"
    and posts: "transport_only (auth_request E c) posts"
    and gets: "case fst (authenticate E (c\<lparr>trace := trace c @ [Call_fetch ep]\<rparr>)) of
          Inl err \<Rightarrow> gets = [] \<and> fst (fetch E ep c) = Inl err
        | Inr t \<Rightarrow> transport_only (get_request ep t) gets \<and> token (snd (fetch E ep c)) = t"
    by blast
  from gets have "gets = [] \<or> (\<exists>t. transport_only (get_request ep t) gets)"
    by (cases "fst (authenticate E (c\<lparr>trace := trace c @ [Call_fetch ep]\<rparr>))") auto
  with tr posts show ?thesis by blast
qed

lemma fetch_calls:
  "filter is_call (appended c (snd (fetch E ep c))) = [Call_fetch ep, Call_authenticate]"
proof -
  from fetch_trace_shape [of E ep c] obtain posts gets where
    tr: "trace (snd (fetch E ep c)) = trace c @ [Call_fetch ep, Call_authenticate] @ posts @ gets"
    and posts: "transport_only (auth_request E c) posts"
    and gets: "gets = [] \<or> (\<exists>t. transport_only (get_request ep t) gets)"
    by blast
  from gets have "filter is_call gets = []"
    by (auto simp: transport_only_no_call)
  with tr posts show ?thesis
    by (simp add: appended_def transport_only_no_call)
qed

lemma fetch_no_Invoked:
  "filter is_Invoked (appended c (snd (fetch E ep c))) = []"
proof -
  from fetch_trace_shape [of E ep c] obtain posts gets where
    tr: "trace (snd (fetch E ep c)) = trace c @ [Call_fetch ep, Call_authenticate] @ posts @ gets"
    and posts: "transport_only (auth_request E c) posts"
    and gets: "gets = [] \<or> (\<exists>t. transport_only (get_request ep t) gets)"
    by blast
  from gets have "filter is_Invoked gets = []"
    by (auto simp: transport_only_no_Invoked)
  with tr posts show ?thesis
    by (simp add: appended_def transport_only_no_Invoked)
qed

lemma fetch_extends: "\<exists>evs. trace (snd (fetch E ep c)) = trace c @ evs"
  using fetch_trace_shape [of E ep c] by auto

lemma fetch_one_authenticate:
  "count_list (appended c (snd (fetch E ep c))) Call_authenticate = 1"
proof -
  from fetch_trace_shape [of E ep c] obtain posts gets where
    tr: "trace (snd (fetch E ep c)) = trace c @ [Call_fetch ep, Call_authenticate] @ posts @ gets"
    and posts: "transport_only (auth_request E c) posts"
    and gets: "gets = [] \<or> (\<exists>t. transport_only (get_request ep t) gets)"
    by blast
  from gets have "count_list gets Call_authenticate = 0"
    by (auto simp: transport_only_no_authenticate)
  with tr posts show ?thesis
    by (simp add: appended_def transport_only_no_authenticate)
qed

lemma fetch_token:
  "fst (fetch E ep (c\<lparr>token := x\<rparr>)) = fst (fetch E ep c)
   \<and> trace (snd (fetch E ep (c\<lparr>token := x\<rparr>))) = trace (snd (fetch E ep c))"
proof -
  let ?c = "c\<lparr>trace := trace c @ [Call_fetch ep]\<rparr>"
  have swap: "(c\<lparr>token := x\<rparr>)\<lparr>trace := trace (c\<lparr>token := x\<rparr>) @ [Call_fetch ep]\<rparr>
                = ?c\<lparr>token := x\<rparr>" by simp
  obtain res c1 where au: "authenticate E ?c = (res, c1)"
    by (cases "authenticate E ?c")
  then have au': "authenticate E (?c\<lparr>token := x\<rparr>) = (res, c1\<lparr>token := x\<rparr>)"
    by (simp add: authenticate_token)
  show ?thesis
    unfolding fetch_def swap au au'
    by (cases res) (simp_all split: prod.splits outcome.splits)
qed

section \<open>The loop over the collection\<close>

text \<open>Whether or not a callback throws, the elements visited are a prefix of the
  collection, each visited once, in order.\<close>

lemma forEach_prefix:
  "\<exists>n\<le>length xs. fst (snd (forEach f xs tr u)) = tr @ map Invoked (take n xs)"
proof (induction xs arbitrary: tr u)
  case Nil
  show ?case by simp
next
  case (Cons x xs)
  obtain r u' where fx: "f x u = (r, u')" by (cases "f x u")
  show ?case
  proof (cases r)
    case (Some err)
    with fx have "fst (snd (forEach f (x # xs) tr u)) = tr @ map Invoked (take 1 (x # xs))"
      by simp
    then show ?thesis by (intro exI [of _ 1]) simp
  next
    case None
    from Cons.IH [of "tr @ [Invoked x]" u'] obtain n where "n \<le> length xs"
      and "fst (snd (forEach f xs (tr @ [Invoked x]) u')) = (tr @ [Invoked x]) @ map Invoked (take n xs)"
      by blast
    with fx None show ?thesis by (intro exI [of _ "Suc n"]) simp
  qed
qed

lemma verifyAuthentication_state: "snd (verifyAuthentication E c) = snd (fetch E (BASE_URI @ ''/corps'') c)"
  by (simp add: verifyAuthentication_def split: prod.splits sum.splits)

lemma iterate_trace:
  "\<exists>ys. trace (fst (snd (iterate E ep f c u))) = trace (snd (fetch E ep c)) @ map Invoked ys"
proof -
  obtain res c1 where fe: "fetch E ep c = (res, c1)" by (cases "fetch E ep c")
  show ?thesis
  proof (cases res)
    case (Inl err)
    with fe show ?thesis by (intro exI [of _ "[]"]) (simp add: iterate_def)
  next
    case (Inr b)
    show ?thesis
    proof (cases "bind_result (get b ''data'') elements")
      case (Inl err)
      with fe Inr show ?thesis by (intro exI [of _ "[]"]) (simp add: iterate_def)
    next
      case xs: (Inr xs)
      from forEach_prefix [of xs f "trace c1" u] obtain n
        where "fst (snd (forEach f xs (trace c1) u)) = trace c1 @ map Invoked (take n xs)"
        by blast
      with fe Inr xs show ?thesis
        by (cases "forEach f xs (trace c1) u") (auto simp: iterate_def)
    qed
  qed
qed

lemma count_list_Invoked: "count_list (map Invoked ys) Call_authenticate = 0"
  by (induction ys) simp_all

lemma iterate_one_authenticate:
  "count_list (appended c (fst (snd (iterate E ep f c u)))) Call_authenticate = 1"
proof -
  from iterate_trace [of E ep f c u] obtain ys
    where it: "trace (fst (snd (iterate E ep f c u))) = trace (snd (fetch E ep c)) @ map Invoked ys"
    by blast
  from fetch_extends [of E ep c] obtain evs
    where ex: "trace (snd (fetch E ep c)) = trace c @ evs" by blast
  with fetch_one_authenticate [of c E ep] have "count_list evs Call_authenticate = 1"
    by (simp add: appended_def)
  with it ex show ?thesis
    by (simp add: appended_def count_list_Invoked)
qed

lemma filter_call_Invoked: "filter is_call (map Invoked xs) = []"
  by (induction xs) simp_all

lemma filter_Invoked_Invoked: "filter is_Invoked (map Invoked xs) = map Invoked xs"
  by (induction xs) simp_all

lemma after_fetch_events:
  assumes fe: "fetch E ep c = (Inr b, c1)"
  shows "filter is_call (appended c (c1\<lparr>trace := trace c1 @ map Invoked xs\<rparr>))
           = [Call_fetch ep, Call_authenticate]
       \<and> filter is_Invoked (appended c (c1\<lparr>trace := trace c1 @ map Invoked xs\<rparr>))
           = map Invoked xs"
proof -
  from fetch_extends [of E ep c] fe obtain evs where ex: "trace c1 = trace c @ evs" by auto
  with fetch_calls [of c E ep] fetch_no_Invoked [of c E ep] fe
  have "filter is_call evs = [Call_fetch ep, Call_authenticate]" and "filter is_Invoked evs = []"
    by (simp_all add: appended_def)
  with ex show ?thesis
    by (simp add: appended_def filter_call_Invoked filter_Invoked_Invoked)
qed

section \<open>The converter\<close>

lemma createCloudWAFEntity_succeeds:
  assumes "\<not> nullish cloudWAF" and "index0 (field cloudWAF ''workspaceConfigs'') = Inr wc"
    and "\<not> nullish wc" and "\<not> nullish (field cloudWAF ''deployment'')"
  shows "\<exists>e. createCloudWAFEntity S cloudWAF = Inr e
           \<and> source e = cloudWAF
           \<and> property e ''_key'' = Some (JStr (''sigsci_cloudwaf:'' @ to_string (field cloudWAF ''id'')))
           \<and> property e ''siteName'' = Some (field wc ''siteName'')"
  using assms
  by (simp add: createCloudWAFEntity_def bind_result_def get_def property_def getCloudWAFKey_def)

lemma createCloudWAFEntity_fails:
  assumes "nullish cloudWAF \<or> (\<forall>wc. index0 (field cloudWAF ''workspaceConfigs'') = Inr wc \<longrightarrow> nullish wc)
           \<or> nullish (field cloudWAF ''deployment'')"
  shows "\<exists>p. createCloudWAFEntity S cloudWAF = Inl (TypeError p)"
proof (cases "nullish cloudWAF")
  case True
  then show ?thesis by (simp add: createCloudWAFEntity_def bind_result_def get_def)
next
  case False
  note obj = this
  show ?thesis
  proof (cases "index0 (field cloudWAF ''workspaceConfigs'')")
    case (Inl err)
    then obtain p where "err = TypeError p"
      by (auto simp: index0_def split: json.splits)
    with Inl obj show ?thesis
      by (simp add: createCloudWAFEntity_def bind_result_def get_def)
  next
    case (Inr wc)
    show ?thesis
    proof (cases "nullish wc")
      case True
      with Inr obj show ?thesis
        by (simp add: createCloudWAFEntity_def bind_result_def get_def)
    next
      case False
      with Inr obj assms have "nullish (field cloudWAF ''deployment'')" by auto
      with False Inr obj show ?thesis
        by (simp add: createCloudWAFEntity_def bind_result_def get_def)
    qed
  qed
qed

section \<open>Errors of \<open>authenticate\<close>\<close>

text \<open>Whatever goes wrong in \<open>authenticate\<close>, the error thrown is the authentication
  error for the /auth endpoint, with the \<^verbatim>\<open>status\<close> and \<^verbatim>\<open>statusText\<close> properties of
  the caught error object and without a cause.\<close>

lemma authenticate_error_shape:
  assumes "fst (authenticate E c) = Inl err"
  shows "\<exists>caught. err = IntegrationProviderAuthenticationError
           \<lparr>endpoint = BASE_URI @ ''/auth'', e_status = status_of caught,
            e_statusText = statusText_of caught, cause = None\<rparr>"
  using assms
  by (auto simp: authenticate_def split: prod.splits sum.splits)

text \<open>A reply outside 2xx is rejected by the HTTP library, so \<open>authenticate\<close> throws.\<close>

lemma authenticate_rejected:
  assumes "axios_request E default_validateStatus (auth_request E c)
             (trace c @ [Call_authenticate]) = (Rejected e, tr)"
  shows "authenticate E c =
     (Inl (IntegrationProviderAuthenticationError
        \<lparr>endpoint = BASE_URI @ ''/auth'', e_status = err_status e,
         e_statusText = err_statusText e, cause = None\<rparr>), c\<lparr>trace := tr\<rparr>)"
  using assms
  by (simp add: authenticate_def authenticate_try_def auth_request_trace)

text \<open>The first thing \<open>authenticate\<close> does is to POST the encoded credentials to /auth.\<close>

lemma authenticate_posts_credentials:
  "\<exists>evs. appended c (snd (authenticate E c)) =
       Call_authenticate
       # Sent \<lparr>verb = POST, url = BASE_URI @ ''/auth'',
               body = Some (form_encode E [(''email'', email c), (''password'', password c)]),
               authorization = None\<rparr>
       # evs"
proof -
  from authenticate_trace [of E c] obtain posts
    where tr: "trace (snd (authenticate E c)) = trace c @ Call_authenticate # posts"
      and posts: "transport_only (auth_request E c) posts" by blast
  from posts obtain evs where "posts = Sent (auth_request E c) # evs"
    by (cases posts) (auto simp: transport_only_def)
  with tr show ?thesis
    by (simp add: appended_def auth_request_def)
qed

section \<open>The retry configuration\<close>

lemma retryDelay_429:
  "err_response e = Some r \<Longrightarrow> status r = 429 \<Longrightarrow> retryDelay n e = int n * 1000"
  by (simp add: retryDelay_def)

lemma retryDelay_other:
  "err_response e = None \<or> (\<exists>r. err_response e = Some r \<and> status r \<noteq> 429)
     \<Longrightarrow> retryDelay n e = 0"
  by (auto simp: retryDelay_def)

text \<open>A request is sent at most once more than there are retries left.\<close>

lemma send_bounded: "sent_count (snd (send E vs req n k tr)) \<le> sent_count tr + Suc n"
proof (induction n arbitrary: k tr)
  case 0
  show ?case by (simp add: sent_count_def)
next
  case (Suc n)
  show ?case
  proof (cases "settle E vs (network E (sent_count tr) req)")
    case (Resolved r)
    then show ?thesis by (simp add: sent_count_def)
  next
    case (Rejected e)
    show ?thesis
    proof (cases "retryCondition E req e")
      case False
      with Rejected show ?thesis by (simp add: sent_count_def)
    next
      case True
      from Suc.IH [of "Suc k" "tr @ [Sent req, Wait (retryDelay (Suc k) e)]"]
      have "sent_count (snd (send E vs req n (Suc k) (tr @ [Sent req, Wait (retryDelay (Suc k) e)])))
              \<le> sent_count tr + Suc (Suc n)"
        by (simp add: sent_count_def)
      with Rejected True show ?thesis by simp
    qed
  qed
qed

lemma axios_request_bounded:
  "sent_count (snd (axios_request E vs req tr)) \<le> sent_count tr + 6"
  using send_bounded [of E vs req retries 0 tr]
  by (simp add: axios_request_def retries_def)

text \<open>A rejected 429 that the retry condition accepts is sent again after
  \<open>retryCount * 1000\<close> ms.\<close>

lemma send_retries_429:
  assumes "network E (sent_count tr) req = Reply r" and "status r = 429"
    and "\<not> vs (status r)" and "err_response (createError E r) = Some r"
    and "retryCondition E req (createError E r)"
  shows "send E vs req (Suc n) k tr
           = send E vs req n (Suc k) (tr @ [Sent req, Wait (int (Suc k) * 1000)])"
  using assms by (simp add: settle_def retryDelay_def)

text \<open>A request resolves only with a response whose status \<^verbatim>\<open>validateStatus\<close> accepts.\<close>

lemma send_resolved_valid:
  "send E vs req n k tr = (Resolved r, tr') \<Longrightarrow> vs (status r)"
proof (induction n arbitrary: k tr)
  case 0
  then show ?case
    by (auto simp: settle_def split: wire.splits if_splits)
next
  case (Suc n)
  show ?case
  proof (cases "settle E vs (network E (sent_count tr) req)")
    case (Resolved r')
    with Suc.prems have "r' = r" by simp
    with Resolved show ?thesis
      by (auto simp: settle_def split: wire.splits if_splits)
  next
    case (Rejected e)
    with Suc.prems have "retryCondition E req e"
      by (auto split: if_splits)
    with Rejected Suc.prems Suc.IH show ?thesis by simp
  qed
qed

lemma axios_request_resolved_valid:
  "axios_request E vs req tr = (Resolved r, tr') \<Longrightarrow> vs (status r)"
  by (simp add: axios_request_def send_resolved_valid)

section \<open>The client methods built on \<open>fetch\<close>\<close>

lemma fetch_token_pair:
  assumes "fetch E ep c = (res, c1)"
  shows "\<exists>c1'. fetch E ep (c\<lparr>token := x\<rparr>) = (res, c1') \<and> trace c1' = trace c1"
proof -
  from fetch_token [where E = E and ep = ep and c = c and x = x] assms
  show ?thesis by (cases "fetch E ep (c\<lparr>token := x\<rparr>)") simp
qed

lemma iterate_token:
  "same_outcome (iterate E ep f (c\<lparr>token := x\<rparr>) u) (iterate E ep f c u)"
proof -
  obtain res c1 where fe: "fetch E ep c = (res, c1)" by (cases "fetch E ep c")
  from fetch_token_pair [OF this, of x] obtain c1'
    where fe': "fetch E ep (c\<lparr>token := x\<rparr>) = (res, c1')" and tr: "trace c1' = trace c1"
    by blast
  show ?thesis
  proof (cases res)
    case (Inl err)
    with fe fe' tr show ?thesis by (simp add: iterate_def same_outcome_def)
  next
    case (Inr b)
    show ?thesis
    proof (cases "bind_result (get b ''data'') elements")
      case (Inl err)
      with fe fe' tr Inr show ?thesis by (simp add: iterate_def same_outcome_def)
    next
      case xs: (Inr xs)
      with fe fe' tr Inr show ?thesis
        by (cases "forEach f xs (trace c1) u") (simp add: iterate_def same_outcome_def)
    qed
  qed
qed

lemma verifyAuthentication_token:
  "fst (verifyAuthentication E (c\<lparr>token := x\<rparr>)) = fst (verifyAuthentication E c)
   \<and> trace (snd (verifyAuthentication E (c\<lparr>token := x\<rparr>)))
       = trace (snd (verifyAuthentication E c))"
proof -
  obtain res c1 where fe: "fetch E (BASE_URI @ ''/corps'') c = (res, c1)"
    by (cases "fetch E (BASE_URI @ ''/corps'') c")
  from fetch_token_pair [OF this, of x] obtain c1'
    where "fetch E (BASE_URI @ ''/corps'') (c\<lparr>token := x\<rparr>) = (res, c1')"
      and "trace c1' = trace c1" by blast
  with fe show ?thesis
    by (cases res) (simp_all add: verifyAuthentication_def)
qed

lemma verifyAuthentication_result:
  "fst (verifyAuthentication E c) = map_sum id (\<lambda>b. ()) (fst (fetch E (BASE_URI @ ''/corps'') c))"
  by (simp add: verifyAuthentication_def split: prod.splits sum.splits)

lemma list_all_Invoked: "list_all is_Invoked (map Invoked ys)"
  by (induction ys) simp_all

lemma verifyAuthentication_one_fetch:
  "after_one_fetch E (BASE_URI @ ''/corps'') c (fst (verifyAuthentication E c))
     (snd (verifyAuthentication E c))"
  by (simp add: after_one_fetch_def verifyAuthentication_def split: prod.splits sum.splits)

lemma iterate_one_fetch:
  "after_one_fetch E ep c (fst (iterate E ep f c u)) (fst (snd (iterate E ep f c u)))"
proof -
  obtain res c1 where fe: "fetch E ep c = (res, c1)" by (cases "fetch E ep c")
  show ?thesis
  proof (cases res)
    case (Inl err)
    with fe show ?thesis by (simp add: iterate_def after_one_fetch_def)
  next
    case (Inr b)
    show ?thesis
    proof (cases "bind_result (get b ''data'') elements")
      case (Inl err)
      with fe Inr show ?thesis by (simp add: iterate_def after_one_fetch_def)
    next
      case xs: (Inr xs)
      from forEach_prefix [of xs f "trace c1" u] obtain n
        where "fst (snd (forEach f xs (trace c1) u)) = trace c1 @ map Invoked (take n xs)"
        by blast
      with fe Inr xs show ?thesis
        by (cases "forEach f xs (trace c1) u")
          (simp add: iterate_def after_one_fetch_def list_all_Invoked)
    qed
  qed
qed

text \<open>Callbacks that do not throw, each on the state the previous ones left, are all
  invoked, in order.\<close>

lemma forEach_no_throw:
  assumes "\<forall>i<length xs. fst (f (xs ! i) (foldl (\<lambda>u x. snd (f x u)) u (take i xs))) = None"
  shows "forEach f xs tr u = (Inr (), tr @ map Invoked xs, foldl (\<lambda>u x. snd (f x u)) u xs)"
  using assms
proof (induction xs arbitrary: tr u)
  case Nil
  show ?case by simp
next
  case (Cons x xs)
  from Cons.prems have "fst (f x u) = None" by fastforce
  then obtain u' where fx: "f x u = (None, u')" by (cases "f x u") simp
  have "\<forall>i<length xs. fst (f (xs ! i) (foldl (\<lambda>u x. snd (f x u)) u' (take i xs))) = None"
  proof (intro allI impI)
    fix i assume "i < length xs"
    with Cons.prems have
      "fst (f ((x # xs) ! Suc i) (foldl (\<lambda>u x. snd (f x u)) u (take (Suc i) (x # xs)))) = None"
      by fastforce
    with fx show "fst (f (xs ! i) (foldl (\<lambda>u x. snd (f x u)) u' (take i xs))) = None"
      by simp
  qed
  from Cons.IH [OF this, of "tr @ [Invoked x]"] fx show ?case by simp
qed

lemma iterate_no_throw:
  assumes fe: "fetch E ep c = (Inr b, c1)"
    and xs: "field b ''data'' = JArr xs"
    and ok: "\<forall>i<length xs. fst (f (xs ! i) (foldl (\<lambda>u x. snd (f x u)) u (take i xs))) = None"
  shows "iterate E ep f c u =
       (Inr (), c1\<lparr>trace := trace c1 @ map Invoked xs\<rparr>, foldl (\<lambda>u x. snd (f x u)) u xs)"
proof -
  from xs have "\<not> nullish b" by (auto simp: nullish_def field_def)
  with xs have "bind_result (get b ''data'') elements = Inr xs"
    by (simp add: bind_result_def get_def elements_def)
  with fe forEach_no_throw [OF ok, of "trace c1"] show ?thesis
    by (simp add: iterate_def)
qed

section \<open>Claims on \<open>fetch\<close>\<close>

text \<open>
  C1. Whenever the GET of \<open>fetch\<close> ends in a response with a status other than 200, be
  it the answer to the first attempt or to a retry, \<open>fetch\<close> throws: an authentication
  error if the status is 401 or 403, a provider API error otherwise (the two are distinct
  constructors, so the first is thrown exactly for 401 and 403). The error carries the
  endpoint requested, the status, the status text and, as its cause, an error built from
  the response body.
\<close>

theorem fetch_non_200_throws:
  assumes "authenticate E (c\<lparr>trace := trace c @ [Call_fetch ep]\<rparr>) = (Inr t, c1)"
    and "axios_request E (\<lambda>s. True) (get_request ep t) (trace c1) = (Resolved r, tr)"
    and "status r \<noteq> 200"
  shows "fetch E ep c =
     (Inl ((if status r = 401 \<or> status r = 403
            then IntegrationProviderAuthenticationError
            else IntegrationProviderAPIError)
             \<lparr>endpoint = ep, e_status = JNum (status r),
              e_statusText = JStr (statusText r), cause = Some (Error (data r))\<rparr>),
      c1\<lparr>token := t, trace := tr\<rparr>)"
  using assms by (simp add: fetch_def)

theorem fetch_non_200_throws_witness:
  "authenticate (test_env [token_abc, no_reply, Reply forbidden])
      (test_client\<lparr>trace := trace test_client @ [Call_fetch corps_url]\<rparr>)
     = (Inr (JStr ''abc''), after_auth [token_abc, no_reply, Reply forbidden] corps_url)
   \<and> axios_request (test_env [token_abc, no_reply, Reply forbidden]) (\<lambda>s. True)
        (get_request corps_url (JStr ''abc''))
        (trace (after_auth [token_abc, no_reply, Reply forbidden] corps_url))
     = (Resolved forbidden,
        trace (after_retried_get [token_abc, no_reply, Reply forbidden] corps_url))
   \<and> status forbidden \<noteq> 200
   \<and> fetch (test_env [token_abc, no_reply, Reply forbidden]) corps_url test_client
     = (Inl (IntegrationProviderAuthenticationError
              \<lparr>endpoint = corps_url, e_status = JNum 403,
               e_statusText = JStr ''Forbidden'', cause = Some (Error (JStr ''no''))\<rparr>),
        after_retried_get [token_abc, no_reply, Reply forbidden] corps_url)
   \<and> fetch (test_env [token_abc, Reply server_error]) users_url test_client
     = (Inl (IntegrationProviderAPIError
              \<lparr>endpoint = users_url, e_status = JNum 500,
               e_statusText = JStr ''Internal Server Error'',
               cause = Some (Error (JStr ''boom''))\<rparr>),
        after_get [token_abc, Reply server_error] users_url)"
proof -
  let ?ws = "[token_abc, no_reply, Reply forbidden]"
  let ?vs = "[token_abc, Reply server_error]"
  have h1: "authenticate (test_env ?ws)
       (test_client\<lparr>trace := trace test_client @ [Call_fetch corps_url]\<rparr>)
     = (Inr (JStr ''abc''), after_auth ?ws corps_url)"
    by code_simp
  have h2: "axios_request (test_env ?ws) (\<lambda>s. True) (get_request corps_url (JStr ''abc''))
        (trace (after_auth ?ws corps_url))
     = (Resolved forbidden, trace (after_retried_get ?ws corps_url))"
    by code_simp
  have h3: "status forbidden \<noteq> 200" by (simp add: forbidden_def)
  have s1: "(after_auth ?ws corps_url)
      \<lparr>token := JStr ''abc'', trace := trace (after_retried_get ?ws corps_url)\<rparr>
      = after_retried_get ?ws corps_url"
    by (simp add: after_auth_def after_retried_get_def test_client_def)
  have k1: "authenticate (test_env ?vs)
       (test_client\<lparr>trace := trace test_client @ [Call_fetch users_url]\<rparr>)
     = (Inr (JStr ''abc''), after_auth ?vs users_url)"
    by code_simp
  have k2: "axios_request (test_env ?vs) (\<lambda>s. True) (get_request users_url (JStr ''abc''))
        (trace (after_auth ?vs users_url))
     = (Resolved server_error, trace (after_get ?vs users_url))"
    by code_simp
  have k3: "status server_error \<noteq> 200" by (simp add: server_error_def)
  have s2: "(after_auth ?vs users_url)
      \<lparr>token := JStr ''abc'', trace := trace (after_get ?vs users_url)\<rparr>
      = after_get ?vs users_url"
    by (simp add: after_auth_def after_get_def test_client_def)
  from fetch_non_200_throws [OF h1 h2 h3] fetch_non_200_throws [OF k1 k2 k3] h1 h2 h3 s1 s2
  show ?thesis
    by (simp add: forbidden_def server_error_def)
qed

text \<open>
  C2. Whenever the GET of \<open>fetch\<close> ends in a response with status 200, be it the answer
  to the first attempt or to a retry, \<open>fetch\<close> returns the body of that response as it is
  and throws nothing.
\<close>

theorem fetch_200_returns_body:
  assumes "authenticate E (c\<lparr>trace := trace c @ [Call_fetch ep]\<rparr>) = (Inr t, c1)"
    and "axios_request E (\<lambda>s. True) (get_request ep t) (trace c1) = (Resolved r, tr)"
    and "status r = 200"
  shows "fetch E ep c = (Inr (data r), c1\<lparr>token := t, trace := tr\<rparr>)"
  using assms by (simp add: fetch_def)

theorem fetch_200_returns_body_witness:
  "authenticate (test_env [token_abc, no_reply, Reply users_ok])
      (test_client\<lparr>trace := trace test_client @ [Call_fetch users_url]\<rparr>)
     = (Inr (JStr ''abc''), after_auth [token_abc, no_reply, Reply users_ok] users_url)
   \<and> axios_request (test_env [token_abc, no_reply, Reply users_ok]) (\<lambda>s. True)
        (get_request users_url (JStr ''abc''))
        (trace (after_auth [token_abc, no_reply, Reply users_ok] users_url))
     = (Resolved users_ok,
        trace (after_retried_get [token_abc, no_reply, Reply users_ok] users_url))
   \<and> status users_ok = 200
   \<and> fetch (test_env [token_abc, no_reply, Reply users_ok]) users_url test_client
     = (Inr (JObj [(''data'', JArr [ann, bob, cyd])]),
        after_retried_get [token_abc, no_reply, Reply users_ok] users_url)"
proof -
  let ?ws = "[token_abc, no_reply, Reply users_ok]"
  have h1: "authenticate (test_env ?ws)
       (test_client\<lparr>trace := trace test_client @ [Call_fetch users_url]\<rparr>)
     = (Inr (JStr ''abc''), after_auth ?ws users_url)"
    by code_simp
  have h2: "axios_request (test_env ?ws) (\<lambda>s. True) (get_request users_url (JStr ''abc''))
        (trace (after_auth ?ws users_url))
     = (Resolved users_ok, trace (after_retried_get ?ws users_url))"
    by code_simp
  have h3: "status users_ok = 200" by (simp add: users_ok_def)
  have s1: "(after_auth ?ws users_url)
      \<lparr>token := JStr ''abc'', trace := trace (after_retried_get ?ws users_url)\<rparr>
      = after_retried_get ?ws users_url"
    by (simp add: after_auth_def after_retried_get_def test_client_def)
  from fetch_200_returns_body [OF h1 h2 h3] h1 h2 h3 s1 show ?thesis
    by (simp add: users_ok_def)
qed

text \<open>
  C3. Every call of \<open>fetch\<close> starts with exactly one call of \<open>authenticate\<close>: what the
  call adds to the trace is the call of \<open>fetch\<close>, the call of \<open>authenticate\<close>, the
  transport of the POST to /auth and then, only if a token came back, the transport of
  the GET, whose bearer token is the one this call of \<open>authenticate\<close> returned. The token
  stored by an earlier call has no influence on the result or on what is sent.
  \<open>verifyAuthentication\<close> and each iterator that gets as far as \<open>fetch\<close> do exactly that
  one \<open>fetch\<close> of their endpoint and send nothing else, so they too authenticate once,
  send the GET with the fresh token and do not depend on the stored one.
\<close>

theorem fetch_authenticates_once:
  "(\<exists>posts gets.
       appended c (snd (fetch E ep c)) = [Call_fetch ep, Call_authenticate] @ posts @ gets
     \<and> transport_only (auth_request E c) posts
     \<and> (case fst (authenticate E (c\<lparr>trace := trace c @ [Call_fetch ep]\<rparr>)) of
           Inl err \<Rightarrow> gets = [] \<and> fst (fetch E ep c) = Inl err
         | Inr t \<Rightarrow> transport_only (get_request ep t) gets \<and> token (snd (fetch E ep c)) = t))
   \<and> count_list (appended c (snd (fetch E ep c))) Call_authenticate = 1
   \<and> fst (fetch E ep (c\<lparr>token := x\<rparr>)) = fst (fetch E ep c)
   \<and> trace (snd (fetch E ep (c\<lparr>token := x\<rparr>))) = trace (snd (fetch E ep c))
   \<and> after_one_fetch E (BASE_URI @ ''/corps'') c (fst (verifyAuthentication E c))
        (snd (verifyAuthentication E c))
   \<and> fst (verifyAuthentication E c)
       = map_sum id (\<lambda>b. ()) (fst (fetch E (BASE_URI @ ''/corps'') c))
   \<and> fst (verifyAuthentication E (c\<lparr>token := x\<rparr>)) = fst (verifyAuthentication E c)
   \<and> trace (snd (verifyAuthentication E (c\<lparr>token := x\<rparr>)))
       = trace (snd (verifyAuthentication E c))
   \<and> count_list (appended c (snd (verifyAuthentication E c))) Call_authenticate = 1
   \<and> after_one_fetch E (BASE_URI @ ''/corps'') c (fst (iterateCorps E f c u))
        (fst (snd (iterateCorps E f c u)))
   \<and> same_outcome (iterateCorps E f (c\<lparr>token := x\<rparr>) u) (iterateCorps E f c u)
   \<and> count_list (appended c (fst (snd (iterateCorps E f c u)))) Call_authenticate = 1
   \<and> same_outcome (iterateUsers E corp f (c\<lparr>token := x\<rparr>) u) (iterateUsers E corp f c u)
   \<and> same_outcome (iterateCloudWAFInstances E corp f (c\<lparr>token := x\<rparr>) u)
        (iterateCloudWAFInstances E corp f c u)
   \<and> (\<not> falsy corp \<longrightarrow>
        after_one_fetch E (BASE_URI @ ''/corps/'' @ to_string corp @ ''/users'') c
          (fst (iterateUsers E corp f c u)) (fst (snd (iterateUsers E corp f c u)))
      \<and> after_one_fetch E (BASE_URI @ ''/corps/'' @ to_string corp @ ''/cloudwafInstances'') c
          (fst (iterateCloudWAFInstances E corp f c u))
          (fst (snd (iterateCloudWAFInstances E corp f c u)))
      \<and> count_list (appended c (fst (snd (iterateUsers E corp f c u)))) Call_authenticate = 1
      \<and> count_list (appended c (fst (snd (iterateCloudWAFInstances E corp f c u))))
           Call_authenticate = 1)"
proof -
  from fetch_trace [of E ep c] obtain posts gets where
    tr: "trace (snd (fetch E ep c)) = trace c @ [Call_fetch ep, Call_authenticate] @ posts @ gets"
    and rest: "transport_only (auth_request E c) posts"
      "case fst (authenticate E (c\<lparr>trace := trace c @ [Call_fetch ep]\<rparr>)) of
          Inl err \<Rightarrow> gets = [] \<and> fst (fetch E ep c) = Inl err
        | Inr t \<Rightarrow> transport_only (get_request ep t) gets \<and> token (snd (fetch E ep c)) = t"
    by blast
  from tr have "appended c (snd (fetch E ep c)) = [Call_fetch ep, Call_authenticate] @ posts @ gets"
    by (simp add: appended_def)
  with rest have shape: "\<exists>posts gets.
       appended c (snd (fetch E ep c)) = [Call_fetch ep, Call_authenticate] @ posts @ gets
     \<and> transport_only (auth_request E c) posts
     \<and> (case fst (authenticate E (c\<lparr>trace := trace c @ [Call_fetch ep]\<rparr>)) of
           Inl err \<Rightarrow> gets = [] \<and> fst (fetch E ep c) = Inl err
         | Inr t \<Rightarrow> transport_only (get_request ep t) gets \<and> token (snd (fetch E ep c)) = t)"
    by blast
  have verify: "count_list (appended c (snd (verifyAuthentication E c))) Call_authenticate = 1"
    by (simp add: verifyAuthentication_state fetch_one_authenticate)
  have corps: "after_one_fetch E (BASE_URI @ ''/corps'') c (fst (iterateCorps E f c u))
        (fst (snd (iterateCorps E f c u)))"
    "same_outcome (iterateCorps E f (c\<lparr>token := x\<rparr>) u) (iterateCorps E f c u)"
    "count_list (appended c (fst (snd (iterateCorps E f c u)))) Call_authenticate = 1"
    by (simp_all add: iterateCorps_def iterate_one_fetch iterate_token iterate_one_authenticate)
  have users_tok:
    "same_outcome (iterateUsers E corp f (c\<lparr>token := x\<rparr>) u) (iterateUsers E corp f c u)"
  proof (cases "buildEndpoint corp (Some ''/users'')")
    case (Inl err)
    then show ?thesis by (simp add: iterateUsers_def same_outcome_def)
  next
    case (Inr ep')
    with iterate_token [where E = E and ep = ep' and f = f and c = c and x = x and u = u] show ?thesis by (simp add: iterateUsers_def)
  qed
  have wafs_tok:
    "same_outcome (iterateCloudWAFInstances E corp f (c\<lparr>token := x\<rparr>) u)
        (iterateCloudWAFInstances E corp f c u)"
  proof (cases "buildEndpoint corp (Some ''/cloudwafInstances'')")
    case (Inl err)
    then show ?thesis by (simp add: iterateCloudWAFInstances_def same_outcome_def)
  next
    case (Inr ep')
    with iterate_token [where E = E and ep = ep' and f = f and c = c and x = x and u = u] show ?thesis
      by (simp add: iterateCloudWAFInstances_def)
  qed
  have users: "\<not> falsy corp \<Longrightarrow>
        after_one_fetch E (BASE_URI @ ''/corps/'' @ to_string corp @ ''/users'') c
          (fst (iterateUsers E corp f c u)) (fst (snd (iterateUsers E corp f c u)))
      \<and> count_list (appended c (fst (snd (iterateUsers E corp f c u)))) Call_authenticate = 1"
    by (simp add: iterateUsers_def buildEndpoint_def iterate_one_fetch iterate_one_authenticate)
  have wafs: "\<not> falsy corp \<Longrightarrow>
        after_one_fetch E (BASE_URI @ ''/corps/'' @ to_string corp @ ''/cloudwafInstances'') c
          (fst (iterateCloudWAFInstances E corp f c u))
          (fst (snd (iterateCloudWAFInstances E corp f c u)))
      \<and> count_list (appended c (fst (snd (iterateCloudWAFInstances E corp f c u))))
           Call_authenticate = 1"
    by (simp add: iterateCloudWAFInstances_def buildEndpoint_def iterate_one_fetch
        iterate_one_authenticate)
  from shape fetch_one_authenticate [of c E ep]
    fetch_token [where E = E and ep = ep and c = c and x = x]
    verifyAuthentication_one_fetch [of E c] verifyAuthentication_result [of E c]
    verifyAuthentication_token [where E = E and c = c and x = x]
    verify corps users_tok wafs_tok users wafs
  show ?thesis by blast
qed

theorem fetch_authenticates_once_witness:
  "appended stale_client (snd (fetch (test_env [token_abc, Reply users_ok]) users_url stale_client))
     = [Call_fetch users_url, Call_authenticate, post_auth [token_abc, Reply users_ok],
        get_abc users_url]
   \<and> \<not> falsy (JStr ''acme'')
   \<and> after_one_fetch (test_env [token_abc, Reply users_ok]) users_url stale_client
        (fst (iterateUsers (test_env [token_abc, Reply users_ok]) (JStr ''acme'') collect
                stale_client []))
        (fst (snd (iterateUsers (test_env [token_abc, Reply users_ok]) (JStr ''acme'') collect
                stale_client [])))
   \<and> appended stale_client
        (fst (snd (iterateUsers (test_env [token_abc, Reply users_ok]) (JStr ''acme'') collect
                stale_client [])))
     = [Call_fetch users_url, Call_authenticate, post_auth [token_abc, Reply users_ok],
        get_abc users_url, Invoked ann, Invoked bob, Invoked cyd]
   \<and> same_outcome
        (iterateUsers (test_env [token_abc, Reply users_ok]) (JStr ''acme'') collect
           (test_client\<lparr>token := JStr ''old''\<rparr>) [])
        (iterateUsers (test_env [token_abc, Reply users_ok]) (JStr ''acme'') collect
           test_client [])
   \<and> after_one_fetch (test_env [token_abc, Reply forbidden]) (BASE_URI @ ''/corps'') stale_client
        (fst (verifyAuthentication (test_env [token_abc, Reply forbidden]) stale_client))
        (snd (verifyAuthentication (test_env [token_abc, Reply forbidden]) stale_client))
   \<and> appended stale_client
        (snd (verifyAuthentication (test_env [token_abc, Reply forbidden]) stale_client))
     = [Call_fetch corps_url, Call_authenticate, post_auth [token_abc, Reply forbidden],
        get_abc corps_url]
   \<and> fst (verifyAuthentication (test_env [token_abc, Reply forbidden]) stale_client)
     = Inl (IntegrationProviderAuthenticationError
              \<lparr>endpoint = corps_url, e_status = JNum 403,
               e_statusText = JStr ''Forbidden'', cause = Some (Error (JStr ''no''))\<rparr>)"
proof -
  let ?E = "test_env [token_abc, Reply users_ok]"
  let ?F = "test_env [token_abc, Reply forbidden]"
  have t1: "appended stale_client (snd (fetch ?E users_url stale_client))
     = [Call_fetch users_url, Call_authenticate, post_auth [token_abc, Reply users_ok],
        get_abc users_url]"
    by code_simp
  have t2: "appended stale_client
        (fst (snd (iterateUsers ?E (JStr ''acme'') collect stale_client [])))
     = [Call_fetch users_url, Call_authenticate, post_auth [token_abc, Reply users_ok],
        get_abc users_url, Invoked ann, Invoked bob, Invoked cyd]"
    by code_simp
  have t3: "appended stale_client (snd (verifyAuthentication ?F stale_client))
     = [Call_fetch corps_url, Call_authenticate, post_auth [token_abc, Reply forbidden],
        get_abc corps_url]"
    by code_simp
  have t4: "fst (fetch ?F (BASE_URI @ ''/corps'') stale_client)
     = Inl (IntegrationProviderAuthenticationError
              \<lparr>endpoint = corps_url, e_status = JNum 403,
               e_statusText = JStr ''Forbidden'', cause = Some (Error (JStr ''no''))\<rparr>)"
    by code_simp
  have truthy: "\<not> falsy (JStr ''acme'')" by (simp add: falsy_def)
  have url: "BASE_URI @ ''/corps/'' @ to_string (JStr ''acme'') @ ''/users'' = users_url"
    by (simp add: users_url_def)
  note A = fetch_authenticates_once [where c = stale_client and E = ?E and ep = users_url
      and x = "JStr ''old''" and f = collect and u = "[]" and corp = "JStr ''acme''"]
  note B = fetch_authenticates_once [where c = test_client and E = ?E and ep = users_url
      and x = "JStr ''old''" and f = collect and u = "[]" and corp = "JStr ''acme''"]
  note C = fetch_authenticates_once [where c = stale_client and E = ?F and ep = corps_url
      and x = "JStr ''old''" and f = collect and u = "[]" and corp = "JStr ''acme''"]
  from A truthy have a1: "after_one_fetch ?E users_url stale_client
        (fst (iterateUsers ?E (JStr ''acme'') collect stale_client []))
        (fst (snd (iterateUsers ?E (JStr ''acme'') collect stale_client [])))"
    unfolding url by blast
  from B have a2: "same_outcome
        (iterateUsers ?E (JStr ''acme'') collect (test_client\<lparr>token := JStr ''old''\<rparr>) [])
        (iterateUsers ?E (JStr ''acme'') collect test_client [])"
    by blast
  from C have a3: "after_one_fetch ?F (BASE_URI @ ''/corps'') stale_client
        (fst (verifyAuthentication ?F stale_client))
        (snd (verifyAuthentication ?F stale_client))"
    by blast
  from C have "fst (verifyAuthentication ?F stale_client)
      = map_sum id (\<lambda>b. ()) (fst (fetch ?F (BASE_URI @ ''/corps'') stale_client))"
    by blast
  with t4 have a4: "fst (verifyAuthentication ?F stale_client)
     = Inl (IntegrationProviderAuthenticationError
              \<lparr>endpoint = corps_url, e_status = JNum 403,
               e_statusText = JStr ''Forbidden'', cause = Some (Error (JStr ''no''))\<rparr>)"
    by simp
  show ?thesis
    by (intro conjI) (fact t1 truthy a1 t2 a2 a3 t3 a4)+
qed

section \<open>Claims on \<open>authenticate\<close> and the retry layer\<close>

text \<open>
  C4. \<open>authenticate\<close> answered with status 500: the POST is rejected and the
  authentication error thrown names the /auth endpoint and carries what the caught error
  object has as \<^verbatim>\<open>status\<close> and \<^verbatim>\<open>statusText\<close> (nothing, the response being kept under
  \<^verbatim>\<open>response\<close>), but no cause: the caught error is dropped.
\<close>

theorem authenticate_drops_cause:
  "authenticate (test_env [Reply server_error]) test_client
     = (Inl (IntegrationProviderAuthenticationError
          \<lparr>endpoint = BASE_URI @ ''/auth'', e_status = JUndefined,
           e_statusText = JUndefined, cause = None\<rparr>),
        test_client\<lparr>trace := [Call_authenticate, post_auth [Reply server_error]]\<rparr>)"
  by code_simp

text \<open>
  C10, as amended. When the POST to /auth ends in a response, be it the answer to the
  first attempt or to a retry, the status is 2xx, and for a body that is not \<^verbatim>\<open>null\<close> or
  \<^verbatim>\<open>undefined\<close> \<open>authenticate\<close> returns the \<open>token\<close> property of the body, whatever it
  is: \<^verbatim>\<open>undefined\<close> when the body has no such property. Nothing is checked and nothing is
  thrown. For a body that is \<^verbatim>\<open>null\<close> or \<^verbatim>\<open>undefined\<close> the read of \<open>token\<close> throws, and
  \<open>authenticate\<close> throws the authentication error.
\<close>

theorem authenticate_returns_token_field:
  assumes "axios_request E default_validateStatus (auth_request E c)
             (trace c @ [Call_authenticate]) = (Resolved r, tr)"
  shows "200 \<le> status r \<and> status r < 300
     \<and> authenticate E c =
         (if nullish (data r)
          then Inl (IntegrationProviderAuthenticationError
                 \<lparr>endpoint = BASE_URI @ ''/auth'', e_status = JUndefined,
                  e_statusText = JUndefined, cause = None\<rparr>)
          else Inr (field (data r) ''token''),
          c\<lparr>trace := tr\<rparr>)"
proof -
  from axios_request_resolved_valid [OF assms] have "200 \<le> status r \<and> status r < 300"
    by (simp add: default_validateStatus_def)
  with assms show ?thesis
    by (simp add: authenticate_def authenticate_try_def auth_request_trace get_def)
qed

theorem authenticate_returns_token_field_witness:
  "axios_request (test_env [no_reply, Reply no_token]) default_validateStatus
      (auth_request (test_env [no_reply, Reply no_token]) test_client)
      (trace test_client @ [Call_authenticate])
     = (Resolved no_token,
        [Call_authenticate, post_auth [no_reply, Reply no_token], Wait 0,
         post_auth [no_reply, Reply no_token]])
   \<and> authenticate (test_env [no_reply, Reply no_token]) test_client
     = (Inr JUndefined,
        test_client\<lparr>trace := [Call_authenticate, post_auth [no_reply, Reply no_token], Wait 0,
                                post_auth [no_reply, Reply no_token]]\<rparr>)
   \<and> axios_request (test_env [Reply empty_token]) default_validateStatus
      (auth_request (test_env [Reply empty_token]) test_client)
      (trace test_client @ [Call_authenticate])
     = (Resolved empty_token, [Call_authenticate, post_auth [Reply empty_token]])
   \<and> fst (authenticate (test_env [Reply empty_token]) test_client) = Inr (JStr [])"
proof -
  let ?ws = "[no_reply, Reply no_token]"
  have h1: "axios_request (test_env ?ws) default_validateStatus
      (auth_request (test_env ?ws) test_client) (trace test_client @ [Call_authenticate])
     = (Resolved no_token, [Call_authenticate, post_auth ?ws, Wait 0, post_auth ?ws])"
    by code_simp
  have h2: "axios_request (test_env [Reply empty_token]) default_validateStatus
      (auth_request (test_env [Reply empty_token]) test_client)
      (trace test_client @ [Call_authenticate])
     = (Resolved empty_token, [Call_authenticate, post_auth [Reply empty_token]])"
    by code_simp
  from authenticate_returns_token_field [OF h1] authenticate_returns_token_field [OF h2] h1 h2
  show ?thesis
    by (simp add: no_token_def empty_token_def nullish_def field_def)
qed

text \<open>C10 as stated fails for a 2xx answer whose body is \<^verbatim>\<open>null\<close>: it has no \<open>token\<close>
  field, and \<open>authenticate\<close> does not return \<^verbatim>\<open>undefined\<close> but throws.\<close>

theorem authenticate_null_body_throws:
  "status null_body = 200
   \<and> field (data null_body) ''token'' = JUndefined
   \<and> authenticate (test_env [Reply null_body]) test_client
     = (Inl (IntegrationProviderAuthenticationError
          \<lparr>endpoint = BASE_URI @ ''/auth'', e_status = JUndefined,
           e_statusText = JUndefined, cause = None\<rparr>),
        test_client\<lparr>trace := [Call_authenticate, post_auth [Reply null_body]]\<rparr>)"
  by code_simp

text \<open>
  C5. \<open>fetch\<close> answered with 429 on its GET, where a second GET would have been
  answered with 200: \<open>fetch\<close> accepts every status, so the response is not a failure,
  the retry layer is not entered, and the caller gets the provider API error for status
  429 after one GET and no wait.
\<close>

theorem fetch_does_not_retry_429:
  "fetch (test_env [token_abc, Reply too_many, Reply corps_ok]) corps_url test_client
     = (Inl (IntegrationProviderAPIError
          \<lparr>endpoint = corps_url, e_status = JNum 429,
           e_statusText = JStr ''Too Many Requests'',
           cause = Some (Error (JStr ''slow down''))\<rparr>),
        after_get [token_abc, Reply too_many, Reply corps_ok] corps_url)"
  by code_simp

section \<open>Claims on the iterators\<close>

text \<open>
  C6. \<open>iterateUsers\<close> and \<open>iterateCloudWAFInstances\<close> called with an empty or missing corp
  throw a plain \<^verbatim>\<open>Error\<close>, neither the authentication error nor the provider API error,
  and hand back the client as it was: nothing has been added to the trace, so neither
  \<open>authenticate\<close> nor the network has been reached.
\<close>

theorem iterators_reject_empty_corp:
  assumes "corpName = JStr [] \<or> corpName = JUndefined"
  shows "iterateUsers E corpName f c u =
           (Inl (Generic (Error (JStr (''Parameter '' @ [CHR 0x27] @ ''corp'' @ [CHR 0x27]
                @ '' is required, but received '' @ to_string corpName)))), c, u)
       \<and> iterateCloudWAFInstances E corpName f c u =
           (Inl (Generic (Error (JStr (''Parameter '' @ [CHR 0x27] @ ''corp'' @ [CHR 0x27]
                @ '' is required, but received '' @ to_string corpName)))), c, u)"
  using assms
  by (auto simp: iterateUsers_def iterateCloudWAFInstances_def buildEndpoint_def falsy_def)

theorem iterators_reject_empty_corp_witness:
  "(JStr [] = JStr [] \<or> JStr [] = JUndefined)
   \<and> iterateUsers (test_env []) (JStr []) (\<lambda>x u. (None, u @ [x])) test_client [] =
       (Inl (Generic (Error (JStr (''Parameter '' @ [CHR 0x27] @ ''corp'' @ [CHR 0x27]
                @ '' is required, but received '')))), test_client, [])
   \<and> iterateCloudWAFInstances (test_env []) (JStr []) (\<lambda>x u. (None, u @ [x])) test_client [] =
       (Inl (Generic (Error (JStr (''Parameter '' @ [CHR 0x27] @ ''corp'' @ [CHR 0x27]
                @ '' is required, but received '')))), test_client, [])
   \<and> trace test_client = []"
proof -
  have h: "JStr [] = JStr [] \<or> JStr [] = JUndefined" by simp
  from iterators_reject_empty_corp [OF h, of "test_env []" "\<lambda>x u. (None, u @ [x])" test_client "[]"]
  show ?thesis by (simp add: test_client_def)
qed

text \<open>
  C7. Take any of the three iterators, with the endpoint it builds. If its \<open>fetch\<close>
  returns a body whose \<open>data\<close> is the array \<open>xs\<close> and no callback throws (each on the
  caller's state as the previous ones left it), then the iterator returns normally,
  having called \<open>fetch\<close> once (and so \<open>authenticate\<close> once) and invoked the callback once
  per element of \<open>xs\<close>, in order; each invocation works on the caller's state as the
  previous one left it.
\<close>

theorem iterators_visit_each_element_once:
  assumes "(it = iterateCorps E \<and> ep = BASE_URI @ ''/corps'')
         \<or> (it = iterateUsers E corp \<and> buildEndpoint corp (Some ''/users'') = Inr ep)
         \<or> (it = iterateCloudWAFInstances E corp
              \<and> buildEndpoint corp (Some ''/cloudwafInstances'') = Inr ep)"
    and "fetch E ep c = (Inr b, c1)"
    and "field b ''data'' = JArr xs"
    and "\<forall>i<length xs. fst (f (xs ! i) (foldl (\<lambda>u x. snd (f x u)) u (take i xs))) = None"
  shows "it f c u =
       (Inr (), c1\<lparr>trace := trace c1 @ map Invoked xs\<rparr>, foldl (\<lambda>u x. snd (f x u)) u xs)
     \<and> filter is_call (appended c (c1\<lparr>trace := trace c1 @ map Invoked xs\<rparr>))
         = [Call_fetch ep, Call_authenticate]
     \<and> filter is_Invoked (appended c (c1\<lparr>trace := trace c1 @ map Invoked xs\<rparr>))
         = map Invoked xs"
proof -
  from assms(1) have "it f c u = iterate E ep f c u"
    by (auto simp: iterateCorps_def iterateUsers_def iterateCloudWAFInstances_def)
  with iterate_no_throw [OF assms(2,3,4)] after_fetch_events [OF assms(2), of xs]
  show ?thesis by simp
qed

theorem iterators_visit_each_element_once_witness:
  "fetch (test_env [token_abc, Reply users_ok]) users_url test_client
     = (Inr (data users_ok), after_get [token_abc, Reply users_ok] users_url)
   \<and> field (data users_ok) ''data'' = JArr [ann, bob, cyd]
   \<and> iterateUsers (test_env [token_abc, Reply users_ok]) (JStr ''acme'') collect test_client []
     = (Inr (),
        (after_get [token_abc, Reply users_ok] users_url)
          \<lparr>trace := trace (after_get [token_abc, Reply users_ok] users_url)
                       @ [Invoked ann, Invoked bob, Invoked cyd]\<rparr>,
        [ann, bob, cyd])
   \<and> fetch (test_env [token_abc, Reply users_ok]) wafs_url test_client
     = (Inr (data users_ok), after_get [token_abc, Reply users_ok] wafs_url)
   \<and> iterateCloudWAFInstances (test_env [token_abc, Reply users_ok]) (JStr ''acme'') collect
        test_client [bob]
     = (Inr (),
        (after_get [token_abc, Reply users_ok] wafs_url)
          \<lparr>trace := trace (after_get [token_abc, Reply users_ok] wafs_url)
                       @ [Invoked ann, Invoked bob, Invoked cyd]\<rparr>,
        [bob, ann, bob, cyd])"
proof -
  let ?E = "test_env [token_abc, Reply users_ok]"
  have h1: "(iterateUsers ?E (JStr ''acme'') = iterateCorps ?E \<and> users_url = BASE_URI @ ''/corps'')
         \<or> (iterateUsers ?E (JStr ''acme'') = iterateUsers ?E (JStr ''acme'')
              \<and> buildEndpoint (JStr ''acme'') (Some ''/users'') = Inr users_url)
         \<or> (iterateUsers ?E (JStr ''acme'') = iterateCloudWAFInstances ?E (JStr ''acme'')
              \<and> buildEndpoint (JStr ''acme'') (Some ''/cloudwafInstances'') = Inr users_url)"
    by (simp add: users_url_def buildEndpoint_def falsy_def)
  have k1: "(iterateCloudWAFInstances ?E (JStr ''acme'') = iterateCorps ?E
              \<and> wafs_url = BASE_URI @ ''/corps'')
         \<or> (iterateCloudWAFInstances ?E (JStr ''acme'') = iterateUsers ?E (JStr ''acme'')
              \<and> buildEndpoint (JStr ''acme'') (Some ''/users'') = Inr wafs_url)
         \<or> (iterateCloudWAFInstances ?E (JStr ''acme'') = iterateCloudWAFInstances ?E (JStr ''acme'')
              \<and> buildEndpoint (JStr ''acme'') (Some ''/cloudwafInstances'') = Inr wafs_url)"
    by (simp add: wafs_url_def buildEndpoint_def falsy_def)
  have h2: "fetch ?E users_url test_client
     = (Inr (data users_ok), after_get [token_abc, Reply users_ok] users_url)"
    by code_simp
  have k2: "fetch ?E wafs_url test_client
     = (Inr (data users_ok), after_get [token_abc, Reply users_ok] wafs_url)"
    by code_simp
  have h3: "field (data users_ok) ''data'' = JArr [ann, bob, cyd]"
    by (simp add: users_ok_def field_def)
  have h4: "\<forall>i<length [ann, bob, cyd].
      fst (collect ([ann, bob, cyd] ! i)
             (foldl (\<lambda>u x. snd (collect x u)) u (take i [ann, bob, cyd]))) = None" for u
    by (simp add: collect_def)
  have h5: "foldl (\<lambda>u x. snd (collect x u)) u [ann, bob, cyd] = u @ [ann, bob, cyd]" for u
    by (simp add: collect_def)
  from iterators_visit_each_element_once [OF h1 h2 h3 h4]
    iterators_visit_each_element_once [OF k1 k2 h3 h4] h2 k2 h3 h5
  show ?thesis by simp
qed

section \<open>Claims on the converter\<close>

text \<open>
  C8, as amended. The converter is a function of the record alone (with the SDK's time
  parser and the two constants). For a record whose \<open>workspaceConfigs\<close> has a first
  element and whose \<open>deployment\<close> is present it produces one entity, built from that
  record, whose \<open>_key\<close> is \<open>sigsci_cloudwaf:\<close> followed by the record's id and whose
  \<open>siteName\<close> is the \<open>siteName\<close> of the first element of \<open>workspaceConfigs\<close>.
\<close>

theorem createCloudWAFEntity_key_and_siteName:
  assumes "field cloudWAF ''workspaceConfigs'' = JArr (wc # wcs)"
    and "\<not> nullish wc"
    and "\<not> nullish (field cloudWAF ''deployment'')"
  shows "\<exists>e. createCloudWAFEntity S cloudWAF = Inr e
           \<and> source e = cloudWAF
           \<and> property e ''_key'' = Some (JStr (''sigsci_cloudwaf:'' @ to_string (field cloudWAF ''id'')))
           \<and> property e ''siteName'' = Some (field wc ''siteName'')"
proof -
  from assms(1) have "\<not> nullish cloudWAF"
    by (auto simp: nullish_def field_def)
  moreover from assms(1) have "index0 (field cloudWAF ''workspaceConfigs'') = Inr wc"
    by (simp add: index0_def)
  ultimately show ?thesis
    using assms(2,3) by (rule createCloudWAFEntity_succeeds)
qed

theorem createCloudWAFEntity_key_and_siteName_witness:
  "field waf_s1 ''workspaceConfigs'' = JArr (JObj [(''siteName'', JStr ''s1'')] # [])
   \<and> \<not> nullish (JObj [(''siteName'', JStr ''s1'')])
   \<and> \<not> nullish (field waf_s1 ''deployment'')
   \<and> (\<exists>e. createCloudWAFEntity test_sdk waf_s1 = Inr e
          \<and> source e = waf_s1
          \<and> property e ''_key'' = Some (JStr ''sigsci_cloudwaf:w1'')
          \<and> property e ''siteName'' = Some (JStr ''s1''))"
proof -
  have h1: "field waf_s1 ''workspaceConfigs'' = JArr (JObj [(''siteName'', JStr ''s1'')] # [])"
    by (simp add: waf_s1_def field_def)
  have h2: "\<not> nullish (JObj [(''siteName'', JStr ''s1'')])"
    by (simp add: nullish_def)
  have h3: "\<not> nullish (field waf_s1 ''deployment'')"
    by (simp add: waf_s1_def field_def nullish_def)
  have ident: "to_string (field waf_s1 ''id'') = ''w1''"
    by (simp add: waf_s1_def field_def)
  have site: "field (JObj [(''siteName'', JStr ''s1'')]) ''siteName'' = JStr ''s1''"
    by (simp add: field_def)
  from createCloudWAFEntity_key_and_siteName [OF h1 h2 h3, of test_sdk] h1 h2 h3 ident site
  show ?thesis by simp
qed

text \<open>C8 as stated, "for every cloud-WAF record", fails: a record with
  \<^verbatim>\<open>workspaceConfigs: [{siteName: "s1"}]\<close> and no \<open>deployment\<close> yields no entity.\<close>

theorem createCloudWAFEntity_needs_deployment:
  "field waf_no_deployment ''workspaceConfigs'' = JArr [JObj [(''siteName'', JStr ''s1'')]]
   \<and> createCloudWAFEntity test_sdk waf_no_deployment = Inl (TypeError ''status'')"
  by code_simp

text \<open>
  C9. The converter is partial. A record whose \<open>workspaceConfigs\<close> is the empty array
  fails on reading \<open>siteName\<close> of the missing first element; a record whose \<open>deployment\<close>
  is absent (or null) fails as well. It returns an entity exactly when the record, the
  first element of its \<open>workspaceConfigs\<close> and its \<open>deployment\<close> are all present.
\<close>

theorem createCloudWAFEntity_partial:
  "(field cloudWAF ''workspaceConfigs'' = JArr [] \<longrightarrow>
      createCloudWAFEntity S cloudWAF = Inl (TypeError ''siteName''))
   \<and> (nullish (field cloudWAF ''deployment'') \<longrightarrow>
      (\<exists>p. createCloudWAFEntity S cloudWAF = Inl (TypeError p)))
   \<and> ((\<exists>e. createCloudWAFEntity S cloudWAF = Inr e) \<longleftrightarrow>
        \<not> nullish cloudWAF
        \<and> (\<exists>wc. index0 (field cloudWAF ''workspaceConfigs'') = Inr wc \<and> \<not> nullish wc)
        \<and> \<not> nullish (field cloudWAF ''deployment''))"
proof (intro conjI impI)
  assume empty: "field cloudWAF ''workspaceConfigs'' = JArr []"
  then have "\<not> nullish cloudWAF" by (auto simp: nullish_def field_def)
  with empty show "createCloudWAFEntity S cloudWAF = Inl (TypeError ''siteName'')"
    by (simp add: createCloudWAFEntity_def bind_result_def get_def index0_def nullish_def)
next
  assume "nullish (field cloudWAF ''deployment'')"
  then show "\<exists>p. createCloudWAFEntity S cloudWAF = Inl (TypeError p)"
    by (intro createCloudWAFEntity_fails) simp
next
  show "(\<exists>e. createCloudWAFEntity S cloudWAF = Inr e) \<longleftrightarrow>
        \<not> nullish cloudWAF
        \<and> (\<exists>wc. index0 (field cloudWAF ''workspaceConfigs'') = Inr wc \<and> \<not> nullish wc)
        \<and> \<not> nullish (field cloudWAF ''deployment'')"
  proof
    assume ok: "\<exists>e. createCloudWAFEntity S cloudWAF = Inr e"
    show "\<not> nullish cloudWAF
        \<and> (\<exists>wc. index0 (field cloudWAF ''workspaceConfigs'') = Inr wc \<and> \<not> nullish wc)
        \<and> \<not> nullish (field cloudWAF ''deployment'')"
    proof (rule ccontr)
      assume "\<not> ?thesis"
      then have "nullish cloudWAF
           \<or> (\<forall>wc. index0 (field cloudWAF ''workspaceConfigs'') = Inr wc \<longrightarrow> nullish wc)
           \<or> nullish (field cloudWAF ''deployment'')" by blast
      from createCloudWAFEntity_fails [OF this, of S] ok show False by auto
    qed
  next
    assume "\<not> nullish cloudWAF
        \<and> (\<exists>wc. index0 (field cloudWAF ''workspaceConfigs'') = Inr wc \<and> \<not> nullish wc)
        \<and> \<not> nullish (field cloudWAF ''deployment'')"
    then show "\<exists>e. createCloudWAFEntity S cloudWAF = Inr e"
      using createCloudWAFEntity_succeeds [of cloudWAF _ S] by blast
  qed
qed

theorem createCloudWAFEntity_partial_witness:
  "field waf_no_configs ''workspaceConfigs'' = JArr []
   \<and> createCloudWAFEntity test_sdk waf_no_configs = Inl (TypeError ''siteName'')
   \<and> nullish (field waf_no_deployment ''deployment'')
   \<and> createCloudWAFEntity test_sdk waf_no_deployment = Inl (TypeError ''status'')
   \<and> (\<exists>e. createCloudWAFEntity test_sdk waf_s1 = Inr e)"
proof -
  have h1: "field waf_no_configs ''workspaceConfigs'' = JArr []"
    by (simp add: waf_no_configs_def field_def)
  have h2: "nullish (field waf_no_deployment ''deployment'')"
    by (simp add: waf_no_deployment_def field_def nullish_def)
  have h3: "createCloudWAFEntity test_sdk waf_no_deployment = Inl (TypeError ''status'')"
    by code_simp
  have h4: "\<not> nullish waf_s1
     \<and> (\<exists>wc. index0 (field waf_s1 ''workspaceConfigs'') = Inr wc \<and> \<not> nullish wc)
     \<and> \<not> nullish (field waf_s1 ''deployment'')"
    by (simp add: waf_s1_def field_def nullish_def index0_def)
  from createCloudWAFEntity_partial [of waf_no_configs test_sdk]
    createCloudWAFEntity_partial [of waf_s1 test_sdk] h1 h2 h3 h4
  show ?thesis by simp
qed

end
